theory Spec2Isabelle
  imports Complex_Main
begin

section \<open>Go string helpers used by the gateway\<close>

text \<open>
  Go strings are byte sequences; they are modelled as \<open>string\<close> (a list of 8-bit
  characters). The helpers below follow the package \<open>strings\<close>.
\<close>

definition HasPrefix :: "string \<Rightarrow> string \<Rightarrow> bool" where
  "HasPrefix s p = (length p \<le> length s \<and> take (length p) s = p)"

definition HasSuffix :: "string \<Rightarrow> string \<Rightarrow> bool" where
  "HasSuffix s p = (length p \<le> length s \<and> drop (length s - length p) s = p)"

fun Contains :: "string \<Rightarrow> string \<Rightarrow> bool" where
  "Contains [] sub = (sub = [])"
| "Contains (c # cs) sub = (HasPrefix (c # cs) sub \<or> Contains cs sub)"

definition TrimPrefix :: "string \<Rightarrow> string \<Rightarrow> string" where
  "TrimPrefix s p = (if HasPrefix s p then drop (length p) s else s)"

text \<open>
  \<open>strings.SplitN\<close> and \<open>strings.Split\<close> for a separator of one byte, which is every
  separator the gateway passes (\<open>"/"\<close>, \<open>","\<close>, \<open>";"\<close>). With \<open>n = 0\<close> Go returns no
  substrings; with \<open>n > 0\<close> at most \<open>n\<close>, the last being the unsplit remainder.
\<close>

fun SplitN :: "string \<Rightarrow> char \<Rightarrow> nat \<Rightarrow> string list" where
  "SplitN s sep 0 = []"
| "SplitN s sep (Suc 0) = [s]"
| "SplitN s sep (Suc (Suc n)) =
     (if sep \<in> set s
      then takeWhile (\<lambda>c. c \<noteq> sep) s # SplitN (tl (dropWhile (\<lambda>c. c \<noteq> sep) s)) sep (Suc n)
      else [s])"

definition Split :: "string \<Rightarrow> char \<Rightarrow> string list" where
  "Split s sep = SplitN s sep (Suc (length s))"

fun Join :: "string list \<Rightarrow> string \<Rightarrow> string" where
  "Join [] sep = []"
| "Join [x] sep = x"
| "Join (x # y # ys) sep = x @ sep @ Join (y # ys) sep"

section \<open>Model router (internal/router/model_router.go)\<close>

record 'p ModelRouter =
  providers :: "string \<rightharpoonup> 'p"
  modelMap :: "string \<rightharpoonup> string"

text \<open>The three prefix scans of \<open>matchModelPattern\<close> each return at the first prefix
  that matches; \<open>list_ex\<close> is that loop.\<close>

definition bedrockPrefixes :: "string list" where
  "bedrockPrefixes = [''claude-'', ''amazon.titan-'', ''ai21.j2-'', ''meta.llama'',
     ''mistral.'', ''cohere.command-text'']"

definition openaiPrefixes :: "string list" where
  "openaiPrefixes = [''gpt-3.5-'', ''gpt-4'', ''text-davinci-'', ''text-curie-'',
     ''text-babbage-'', ''text-ada-'']"

definition vertexPrefixes :: "string list" where
  "vertexPrefixes = [''gemini-'', ''text-bison'', ''chat-bison'', ''codechat-bison'']"

definition NewModelRouter :: "'p ModelRouter" where
  "NewModelRouter = \<lparr>providers = Map.empty, modelMap = Map.empty\<rparr>"

definition matchModelPattern :: "string \<Rightarrow> string" where
  "matchModelPattern model =
     (if HasSuffix model ''-azure'' \<or> HasSuffix model ''-deployment'' then ''azure''
      else if HasSuffix model ''-anthropic'' then ''anthropic''
      else if HasPrefix model ''ibm/'' then ''ibm''
      else if HasPrefix model ''cohere.'' \<and> \<not> Contains model ''command-text'' then ''oracle''
      else if list_ex (HasPrefix model) bedrockPrefixes then ''bedrock''
      else if list_ex (HasPrefix model) openaiPrefixes then ''openai''
      else if list_ex (HasPrefix model) vertexPrefixes then ''vertex''
      else '''')"

definition GetProviderForModel :: "'p ModelRouter \<Rightarrow> string \<Rightarrow> string" where
  "GetProviderForModel r model =
     (case modelMap r model of
        Some providerName \<Rightarrow> providerName
      | None \<Rightarrow> matchModelPattern model)"

section \<open>Bedrock model identifiers (package bedrock)\<close>

definition BedrockModelIDMap :: "string \<rightharpoonup> string" where
  "BedrockModelIDMap = map_of
     [(''claude-3-opus'', ''anthropic.claude-3-opus-20240229-v1:0''),
      (''claude-3-opus-20240229'', ''anthropic.claude-3-opus-20240229-v1:0''),
      (''claude-3-sonnet'', ''anthropic.claude-3-sonnet-20240229-v1:0''),
      (''claude-3-sonnet-20240229'', ''anthropic.claude-3-sonnet-20240229-v1:0''),
      (''claude-3-haiku'', ''anthropic.claude-3-haiku-20240307-v1:0''),
      (''claude-3-haiku-20240307'', ''anthropic.claude-3-haiku-20240307-v1:0''),
      (''claude-3-5-sonnet'', ''anthropic.claude-3-5-sonnet-20240620-v1:0''),
      (''claude-3-5-sonnet-20240620'', ''anthropic.claude-3-5-sonnet-20240620-v1:0''),
      (''amazon-titan-text-express'', ''amazon.titan-text-express-v1''),
      (''amazon-titan-text-lite'', ''amazon.titan-text-lite-v1''),
      (''amazon-titan-embed-text'', ''amazon.titan-embed-text-v1''),
      (''llama2-13b'', ''meta.llama2-13b-chat-v1''),
      (''llama2-70b'', ''meta.llama2-70b-chat-v1''),
      (''mistral-7b'', ''mistral.mistral-7b-instruct-v0:2''),
      (''mistral-8x7b'', ''mistral.mixtral-8x7b-instruct-v0:1'')]"

text \<open>
  The slice expression \<open>friendlyName[0:1]\<close> is the first byte of the name, as a string; it
  is only evaluated when the name is not empty. A missing map key yields Go's zero values
  \<open>("", false)\<close>.
\<close>

definition GetBedrockModelID :: "string \<Rightarrow> string \<times> bool" where
  "GetBedrockModelID friendlyName =
     (if length friendlyName > 0 \<and>
         (take 1 friendlyName = ''anthropic.'' \<or>
          take 1 friendlyName = ''amazon.'' \<or>
          take 1 friendlyName = ''meta.'' \<or>
          take 1 friendlyName = ''mistral.'')
      then (friendlyName, True)
      else (case BedrockModelIDMap friendlyName of
              Some modelID \<Rightarrow> (modelID, True)
            | None \<Rightarrow> ('''', False)))"

section \<open>Dynamically typed values and library renderings\<close>

text \<open>
  A Go \<open>interface{}\<close> holding a decoded JSON value: \<open>nil\<close>, \<open>bool\<close>, \<open>float64\<close>,
  \<open>string\<close>, \<open>[]interface{}\<close> or \<open>map[string]interface{}\<close>. A map is kept as an
  association list and indexed with \<open>map_of\<close>; indexing a missing key gives the nil
  interface value, on which every type assertion fails.
\<close>

datatype any = ANil | ABool bool | ANum real | AString string
  | ASlice "any list" | AMap "(string \<times> any) list"

type_synonym gomap = "(string \<times> any) list option"

definition gomap_any :: "gomap \<Rightarrow> any" where
  "gomap_any m = (case m of None \<Rightarrow> ANil | Some kvs \<Rightarrow> AMap kvs)"

definition assertString :: "any option \<Rightarrow> string option" where
  "assertString v = (case v of Some (AString s) \<Rightarrow> Some s | _ \<Rightarrow> None)"

definition assertMap :: "any option \<Rightarrow> (string \<times> any) list option" where
  "assertMap v = (case v of Some (AMap m) \<Rightarrow> Some m | _ \<Rightarrow> None)"

text \<open>
  An instant of \<open>time.Time\<close>; the gateway only passes instants on to formatting.
\<close>

type_synonym Time = int

text \<open>
  Text renderings done by the Go standard library, whose output format is outside this
  development, are parameters of the model: \<open>fmt.Sprintf("%v", x)\<close>, \<open>json.Marshal\<close> of a
  decoded value (as text), \<open>%q\<close> quoting, and \<open>Time.Format(layout)\<close>.
\<close>

record golib =
  Sprintv :: "any \<Rightarrow> string"
  Marshal :: "any \<Rightarrow> string"
  Quote :: "string \<Rightarrow> string"
  FormatTime :: "string \<Rightarrow> Time \<Rightarrow> string"

section \<open>OpenAI chat-completion types (package translator)\<close>

text \<open>
  The declarations of these types are not among the sources; the records list the fields
  that the translators and handlers read and write, with the Go types those uses fix.
\<close>

record FunctionCall =
  fc_Name :: string
  fc_Arguments :: string

record ToolCall =
  tc_ID :: string
  tc_Type :: string
  tc_Function :: FunctionCall

record ChatMessage =
  msg_Role :: string
  msg_Content :: any
  msg_ToolCalls :: "ToolCall list"

record FunctionDef =
  fn_Name :: string
  fn_Description :: string
  fn_Parameters :: gomap

record Tool =
  tool_Type :: string
  tool_Function :: FunctionDef

record ChatCompletionRequest =
  Model :: string
  Messages :: "ChatMessage list"
  MaxTokens :: int
  Temperature :: real
  TopP :: real
  Stop :: "string list"
  Stream :: bool
  Tools :: "Tool list"
  Functions :: "FunctionDef list"
  ToolChoice :: any

record ChatCompletionChoice =
  ch_Index :: int
  ch_Message :: ChatMessage
  ch_FinishReason :: string

record Usage =
  PromptTokens :: int
  CompletionTokens :: int
  TotalTokens :: int

record ChatCompletionResponse =
  resp_ID :: string
  resp_Object :: string
  resp_Created :: int
  resp_Model :: string
  resp_Choices :: "ChatCompletionChoice list"
  resp_Usage :: "Usage option"

record 'b ProviderRequest =
  Method :: string
  Path :: string
  Headers :: "(string \<times> string) list"
  Body :: 'b

datatype translate_error = ModelNotSupported string

section \<open>Bedrock Converse types (internal/translator/bedrock_converse.go)\<close>

text \<open>A Go pointer field is an \<open>option\<close>: \<open>None\<close> is \<open>nil\<close>, left out of the JSON by
  \<open>omitempty\<close>.\<close>

record ImageSource =
  is_Bytes :: string

record ImageBlock =
  ib_Format :: string
  ib_Source :: ImageSource

record DocumentSource =
  ds_Bytes :: string

record DocumentBlock =
  db_Format :: string
  db_Name :: string
  db_Source :: DocumentSource

record ToolUseBlock =
  ToolUseId :: string
  Name :: string
  Input :: gomap

datatype ContentBlock =
  ContentBlock (Text: "string option") (Image: "ImageBlock option")
    (Document: "DocumentBlock option") (ToolUse: "ToolUseBlock option")
    (ToolResult: "ToolResultBlock option")
and ToolResultBlock =
  ToolResultBlock (tr_ToolUseId: string) (tr_Content: "ContentBlock list") (tr_Status: string)

record ConverseMessage =
  cm_Role :: string
  cm_Content :: "ContentBlock list"

record SystemContentBlock =
  sys_Text :: string

record InferenceConfig =
  ic_MaxTokens :: "int option"
  ic_Temperature :: "real option"
  ic_TopP :: "real option"
  ic_StopSequences :: "string list"

record ToolInputSchema =
  JSON :: gomap

record ToolSpec =
  ts_Name :: string
  ts_Description :: string
  ts_InputSchema :: "ToolInputSchema option"

record ConverseTool =
  ct_ToolSpec :: "ToolSpec option"

record ToolChoiceTool =
  tct_Name :: string

text \<open>The fields \<open>Auto\<close> and \<open>Any\<close> are pointers to the empty struct: set or nil.\<close>

record ToolChoice =
  tch_Auto :: bool
  tch_Any :: bool
  tch_Tool :: "ToolChoiceTool option"

record ToolConfig =
  cfg_Tools :: "ConverseTool list"
  cfg_ToolChoice :: "ToolChoice option"

record ConverseRequest =
  cr_Messages :: "ConverseMessage list"
  cr_System :: "SystemContentBlock list"
  cr_InferenceConfig :: "InferenceConfig option"
  cr_ToolConfig :: "ToolConfig option"
  cr_AdditionalModelRequestFields :: gomap

record ConverseOutput =
  out_Message :: "ConverseMessage option"

record ConverseUsage =
  InputTokens :: int
  OutputTokens :: int
  cu_TotalTokens :: int

record ConverseMetrics =
  LatencyMs :: int

record ConverseResponse =
  Output :: ConverseOutput
  StopReason :: string
  cv_Usage :: ConverseUsage
  Metrics :: "ConverseMetrics option"

section \<open>Bedrock InvokeModel types (internal/translator/openai_to_bedrock.go)\<close>

record BedrockImageSource =
  bis_Type :: string
  bis_MediaType :: string
  bis_Data :: string

record BedrockContentBlock =
  bcb_Type :: string
  bcb_Text :: string
  bcb_Source :: "BedrockImageSource option"

text \<open>\<open>BedrockMessage.Content\<close> is an \<open>interface{}\<close> that the translator leaves nil or
  fills with a string or a slice of blocks.\<close>

datatype BedrockContent = BCNil | BCString string | BCBlocks "BedrockContentBlock list"

record BedrockMessage =
  bm_Role :: string
  bm_Content :: BedrockContent

record BedrockRequest =
  br_AnthropicVersion :: string
  br_Messages :: "BedrockMessage list"
  br_MaxTokens :: int
  br_Temperature :: real
  br_TopP :: real
  br_TopK :: int
  br_StopSequences :: "string list"
  br_System :: string

section \<open>OpenAI to Bedrock InvokeModel (TranslateOpenAIToBedrock)\<close>

text \<open>\<open>extractTextContent\<close>: a string as it is; of an array, the \<open>text\<close> strings of the
  parts that are maps, joined by newlines; anything else through \<open>%v\<close>.\<close>

definition extractTextContent :: "golib \<Rightarrow> any \<Rightarrow> string" where
  "extractTextContent L content =
     (case content of
        AString c \<Rightarrow> c
      | ASlice c \<Rightarrow>
          Join (List.map_filter
                  (\<lambda>part. case part of
                             AMap partMap \<Rightarrow> assertString (map_of partMap ''text'')
                           | _ \<Rightarrow> None) c) [CHR 0x0A]
      | _ \<Rightarrow> Sprintv L content)"

definition extractMediaType :: "string \<Rightarrow> string" where
  "extractMediaType prefix =
     (let parts = Split prefix CHR '';''
      in if length parts > 0 then TrimPrefix (parts ! 0) ''data:'' else ''image/jpeg'')"

definition convertContentPart :: "(string \<times> any) list \<Rightarrow> BedrockContentBlock option" where
  "convertContentPart part =
     (case assertString (map_of part ''type'') of
        None \<Rightarrow> None
      | Some partType \<Rightarrow>
          if partType = ''text'' then
            (case assertString (map_of part ''text'') of
               Some text \<Rightarrow> Some \<lparr>bcb_Type = ''text'', bcb_Text = text, bcb_Source = None\<rparr>
             | None \<Rightarrow> None)
          else if partType = ''image_url'' then
            (case assertMap (map_of part ''image_url'') of
               None \<Rightarrow> None
             | Some imageURL \<Rightarrow>
                 (case assertString (map_of imageURL ''url'') of
                    None \<Rightarrow> None
                  | Some url \<Rightarrow>
                      if HasPrefix url ''data:image/'' then
                        (let parts = SplitN url CHR '','' 2
                         in if length parts = 2 then
                              Some \<lparr>bcb_Type = ''image'', bcb_Text = '''',
                                    bcb_Source = Some \<lparr>bis_Type = ''base64'',
                                      bis_MediaType = extractMediaType (parts ! 0),
                                      bis_Data = parts ! 1\<rparr>\<rparr>
                            else None)
                      else None))
          else None)"

text \<open>The message loop of \<open>TranslateOpenAIToBedrock\<close>, with its two loop variables
  \<open>bedrockMessages\<close> and \<open>systemPrompt\<close> as the accumulator.\<close>

fun bedrockMessagesLoop ::
  "golib \<Rightarrow> ChatMessage list \<Rightarrow> BedrockMessage list \<times> string \<Rightarrow> BedrockMessage list \<times> string"
where
  "bedrockMessagesLoop L [] acc = acc"
| "bedrockMessagesLoop L (msg # msgs) (bedrockMessages, systemPrompt) =
     (if msg_Role msg = ''system'' then
        bedrockMessagesLoop L msgs (bedrockMessages, extractTextContent L (msg_Content msg))
      else if msg_Role msg = ''assistant'' \<and> length (msg_ToolCalls msg) > 0 then
        bedrockMessagesLoop L msgs (bedrockMessages, systemPrompt)
      else
        bedrockMessagesLoop L msgs
          (bedrockMessages @
             [\<lparr>bm_Role = msg_Role msg,
               bm_Content =
                 (case msg_Content msg of
                    AString content \<Rightarrow> BCString content
                  | ASlice content \<Rightarrow>
                      (let blocks = List.map_filter
                             (\<lambda>part. case part of
                                        AMap partMap \<Rightarrow> convertContentPart partMap
                                      | _ \<Rightarrow> None) content
                       in if length blocks > 0 then BCBlocks blocks else BCNil)
                  | content \<Rightarrow> BCString (Sprintv L content))\<rparr>],
           systemPrompt))"

text \<open>
  The provider request carries the request structure that the code hands to
  \<open>json.Marshal\<close>; marshalling these structures, built from decoded JSON, does not fail.
  The error of the translators is kept as a value naming the model.
\<close>

definition TranslateOpenAIToBedrock ::
  "golib \<Rightarrow> ChatCompletionRequest \<Rightarrow> translate_error + (BedrockRequest ProviderRequest \<times> string)"
where
  "TranslateOpenAIToBedrock L openaiReq =
     (case GetBedrockModelID (Model openaiReq) of
        (bedrockModelID, exists) \<Rightarrow>
          if \<not> exists then Inl (ModelNotSupported (Model openaiReq))
          else
            (case bedrockMessagesLoop L (Messages openaiReq) ([], '''') of
               (bedrockMessages, systemPrompt) \<Rightarrow>
                 Inr (\<lparr>Method = ''POST'',
                        Path = (if Stream openaiReq
                                then ''/model/'' @ bedrockModelID @ ''/invoke-with-response-stream''
                                else ''/model/'' @ bedrockModelID @ ''/invoke''),
                        Headers = [(''Content-Type'', ''application/json''),
                                   (''Accept'', ''application/json'')],
                        Body = \<lparr>br_AnthropicVersion = ''bedrock-2023-05-31'',
                                 br_Messages = bedrockMessages,
                                 br_MaxTokens = (if MaxTokens openaiReq = 0 then 4096
                                                 else MaxTokens openaiReq),
                                 br_Temperature = (if Temperature openaiReq = 0 then 1
                                                   else Temperature openaiReq),
                                 br_TopP = TopP openaiReq,
                                 br_TopK = 0,
                                 br_StopSequences = Stop openaiReq,
                                 br_System = systemPrompt\<rparr>\<rparr>,
                      bedrockModelID)))"

section \<open>OpenAI to Bedrock Converse (TranslateOpenAIToConverseAPI)\<close>

definition TextBlock :: "string \<Rightarrow> ContentBlock" where
  "TextBlock t = ContentBlock (Some t) None None None None"

definition extractImageFormat :: "string \<Rightarrow> string" where
  "extractImageFormat prefix =
     (if Contains prefix ''image/png'' then ''png''
      else if Contains prefix ''image/jpeg'' \<or> Contains prefix ''image/jpg'' then ''jpeg''
      else if Contains prefix ''image/gif'' then ''gif''
      else if Contains prefix ''image/webp'' then ''webp''
      else ''jpeg'')"

definition convertContentPartToBlock :: "(string \<times> any) list \<Rightarrow> ContentBlock option" where
  "convertContentPartToBlock part =
     (case assertString (map_of part ''type'') of
        None \<Rightarrow> None
      | Some partType \<Rightarrow>
          if partType = ''text'' then
            (case assertString (map_of part ''text'') of
               Some text \<Rightarrow> Some (TextBlock text)
             | None \<Rightarrow> None)
          else if partType = ''image_url'' then
            (case assertMap (map_of part ''image_url'') of
               None \<Rightarrow> None
             | Some imageURL \<Rightarrow>
                 (case assertString (map_of imageURL ''url'') of
                    None \<Rightarrow> None
                  | Some url \<Rightarrow>
                      if HasPrefix url ''data:image/'' then
                        (let parts = SplitN url CHR '','' 2
                         in if length parts = 2 then
                              Some (ContentBlock None
                                      (Some \<lparr>ib_Format = extractImageFormat (parts ! 0),
                                             ib_Source = \<lparr>is_Bytes = parts ! 1\<rparr>\<rparr>)
                                      None None None)
                            else None)
                      else None))
          else None)"

definition convertToContentBlocks :: "golib \<Rightarrow> any \<Rightarrow> ContentBlock list" where
  "convertToContentBlocks L content =
     (case content of
        AString c \<Rightarrow> [TextBlock c]
      | ASlice c \<Rightarrow>
          List.map_filter
            (\<lambda>part. case part of
                       AMap partMap \<Rightarrow> convertContentPartToBlock partMap
                     | _ \<Rightarrow> None) c
      | _ \<Rightarrow> [TextBlock (Sprintv L content)])"

text \<open>The message loop of \<open>TranslateOpenAIToConverseAPI\<close>; the accumulator is
  \<open>(converseMessages, systemBlocks)\<close>.\<close>

fun converseMessagesLoop ::
  "golib \<Rightarrow> ChatMessage list \<Rightarrow> ConverseMessage list \<times> SystemContentBlock list
     \<Rightarrow> ConverseMessage list \<times> SystemContentBlock list"
where
  "converseMessagesLoop L [] acc = acc"
| "converseMessagesLoop L (msg # msgs) (converseMessages, systemBlocks) =
     (if msg_Role msg = ''system'' then
        converseMessagesLoop L msgs
          (converseMessages,
           systemBlocks @ [\<lparr>sys_Text = extractTextContent L (msg_Content msg)\<rparr>])
      else if msg_Role msg = ''function'' \<or> msg_Role msg = ''tool'' then
        converseMessagesLoop L msgs (converseMessages, systemBlocks)
      else
        (let contentBlocks = convertToContentBlocks L (msg_Content msg)
         in if length contentBlocks = 0 then
              converseMessagesLoop L msgs (converseMessages, systemBlocks)
            else
              converseMessagesLoop L msgs
                (converseMessages @ [\<lparr>cm_Role = msg_Role msg, cm_Content = contentBlocks\<rparr>],
                 systemBlocks)))"

definition convertToolChoice :: "any \<Rightarrow> ToolChoice option" where
  "convertToolChoice toolChoice =
     (let auto = Some \<lparr>tch_Auto = True, tch_Any = False, tch_Tool = None\<rparr>
      in case toolChoice of
           AString tc \<Rightarrow>
             if tc = ''auto'' then auto
             else if tc = ''required'' \<or> tc = ''any'' then
               Some \<lparr>tch_Auto = False, tch_Any = True, tch_Tool = None\<rparr>
             else if tc = ''none'' then None
             else auto
         | AMap tc \<Rightarrow>
             (case assertString (map_of tc ''type'') of
                Some tcType \<Rightarrow>
                  if tcType = ''function'' then
                    (case assertMap (map_of tc ''function'') of
                       Some function \<Rightarrow>
                         (case assertString (map_of function ''name'') of
                            Some name \<Rightarrow>
                              Some \<lparr>tch_Auto = False, tch_Any = False,
                                    tch_Tool = Some \<lparr>tct_Name = name\<rparr>\<rparr>
                          | None \<Rightarrow> auto)
                     | None \<Rightarrow> auto)
                  else auto
              | None \<Rightarrow> auto)
         | _ \<Rightarrow> auto)"

definition toolSpecOf :: "FunctionDef \<Rightarrow> ConverseTool" where
  "toolSpecOf f =
     \<lparr>ct_ToolSpec = Some \<lparr>ts_Name = fn_Name f, ts_Description = fn_Description f,
                           ts_InputSchema = Some \<lparr>JSON = fn_Parameters f\<rparr>\<rparr>\<rparr>"

definition convertToolsToConverseFormat :: "ChatCompletionRequest \<Rightarrow> ToolConfig option" where
  "convertToolsToConverseFormat req =
     (let converseTools =
            map (\<lambda>tool. toolSpecOf (tool_Function tool))
                (filter (\<lambda>tool. tool_Type tool = ''function'') (Tools req))
            @ map toolSpecOf (Functions req)
      in if length converseTools = 0 then None
         else Some \<lparr>cfg_Tools = converseTools,
                     cfg_ToolChoice = (if ToolChoice req \<noteq> ANil
                                       then convertToolChoice (ToolChoice req) else None)\<rparr>)"

definition TranslateOpenAIToConverseAPI ::
  "golib \<Rightarrow> ChatCompletionRequest \<Rightarrow> translate_error + (ConverseRequest ProviderRequest \<times> string)"
where
  "TranslateOpenAIToConverseAPI L openaiReq =
     (case GetBedrockModelID (Model openaiReq) of
        (bedrockModelID, exists) \<Rightarrow>
          if \<not> exists then Inl (ModelNotSupported (Model openaiReq))
          else
            (case converseMessagesLoop L (Messages openaiReq) ([], []) of
               (converseMessages, systemBlocks) \<Rightarrow>
                 Inr (\<lparr>Method = ''POST'',
                        Path = (if Stream openaiReq
                                then ''/model/'' @ bedrockModelID @ ''/converse-stream''
                                else ''/model/'' @ bedrockModelID @ ''/converse''),
                        Headers = [(''Content-Type'', ''application/json''),
                                   (''Accept'', ''application/json'')],
                        Body = \<lparr>cr_Messages = converseMessages,
                                 cr_System = systemBlocks,
                                 cr_InferenceConfig = Some
                                   \<lparr>ic_MaxTokens = (if MaxTokens openaiReq > 0
                                                     then Some (MaxTokens openaiReq) else None),
                                    ic_Temperature = (if Temperature openaiReq > 0
                                                     then Some (Temperature openaiReq) else None),
                                    ic_TopP = (if TopP openaiReq > 0
                                               then Some (TopP openaiReq) else None),
                                    ic_StopSequences = (if length (Stop openaiReq) > 0
                                                        then Stop openaiReq else [])\<rparr>,
                                 cr_ToolConfig =
                                   (if length (Tools openaiReq) > 0
                                       \<or> length (Functions openaiReq) > 0
                                    then convertToolsToConverseFormat openaiReq else None),
                                 cr_AdditionalModelRequestFields = None\<rparr>\<rparr>,
                      bedrockModelID)))"

section \<open>Bedrock Converse to OpenAI (TranslateConverseToOpenAI)\<close>

definition mapConverseStopReason :: "string \<Rightarrow> string" where
  "mapConverseStopReason converseReason =
     (if converseReason = ''end_turn'' then ''stop''
      else if converseReason = ''max_tokens'' then ''length''
      else if converseReason = ''stop_sequence'' then ''stop''
      else if converseReason = ''tool_use'' then ''tool_calls''
      else if converseReason = ''content_filtered'' then ''content_filter''
      else ''stop'')"

definition currentTimestampUnix :: int where
  "currentTimestampUnix = 0"

definition toolCallOf :: "golib \<Rightarrow> ToolUseBlock \<Rightarrow> ToolCall" where
  "toolCallOf L tu =
     \<lparr>tc_ID = ToolUseId tu, tc_Type = ''function'',
      tc_Function = \<lparr>fc_Name = Name tu, fc_Arguments = Marshal L (gomap_any (Input tu))\<rparr>\<rparr>"

text \<open>The block loop of \<open>TranslateConverseToOpenAI\<close>; the accumulator is
  \<open>(content, toolCalls)\<close>. A block may carry both a text and a tool use.\<close>

fun blocksLoop :: "golib \<Rightarrow> ContentBlock list \<Rightarrow> string \<times> ToolCall list \<Rightarrow> string \<times> ToolCall list"
where
  "blocksLoop L [] acc = acc"
| "blocksLoop L (block # blocks) (content, toolCalls) =
     blocksLoop L blocks
       ((case Text block of Some t \<Rightarrow> content @ t | None \<Rightarrow> content),
        (case ToolUse block of
           Some tu \<Rightarrow> toolCalls @ [toolCallOf L tu]
         | None \<Rightarrow> toolCalls))"

definition TranslateConverseToOpenAI ::
  "golib \<Rightarrow> ConverseResponse \<Rightarrow> string \<Rightarrow> string \<Rightarrow> ChatCompletionResponse"
where
  "TranslateConverseToOpenAI L converseResp openaiModel requestID =
     (case (case out_Message (Output converseResp) of
              None \<Rightarrow> ('''', [])
            | Some m \<Rightarrow> blocksLoop L (cm_Content m) ('''', [])) of
        (content, toolCalls) \<Rightarrow>
          \<lparr>resp_ID = requestID,
           resp_Object = ''chat.completion'',
           resp_Created = currentTimestampUnix,
           resp_Model = openaiModel,
           resp_Choices =
             [\<lparr>ch_Index = 0,
               ch_Message = \<lparr>msg_Role = ''assistant'',
                              msg_Content = (if content \<noteq> '''' then AString content else ANil),
                              msg_ToolCalls = (if length toolCalls > 0 then toolCalls else [])\<rparr>,
               ch_FinishReason = mapConverseStopReason (StopReason converseResp)\<rparr>],
           resp_Usage = Some \<lparr>PromptTokens = InputTokens (cv_Usage converseResp),
                               CompletionTokens = OutputTokens (cv_Usage converseResp),
                               TotalTokens = cu_TotalTokens (cv_Usage converseResp)\<rparr>\<rparr>)"

section \<open>The chat-completion handler up to the upstream request (OpenAIHandler)\<close>

text \<open>
  \<open>ChatCompletions\<close> followed by \<open>handleNonStreamingRequest\<close>, up to the request that is
  handed to the provider. The parameter \<open>route\<close> stands for \<open>h.router.RouteRequest\<close>
  followed by \<open>provider.Name()\<close>: the name of the chosen provider, or \<open>None\<close> when
  routing fails. The argument is the request as decoded from the JSON body, where an
  absent number is zero. A rejection is the HTTP status with the error code of the body.
\<close>

datatype upstream_body = ConverseBody ConverseRequest | OpenAIBody ChatCompletionRequest

definition setDefaultValues :: "ChatCompletionRequest \<Rightarrow> ChatCompletionRequest" where
  "setDefaultValues req =
     req\<lparr>MaxTokens := (if MaxTokens req = 0 then 4096 else MaxTokens req),
         Temperature := (if Temperature req = 0 then 1 else Temperature req)\<rparr>"

definition ChatCompletions ::
  "golib \<Rightarrow> (string \<Rightarrow> string option) \<Rightarrow> ChatCompletionRequest
     \<Rightarrow> (int \<times> string) + upstream_body ProviderRequest"
where
  "ChatCompletions L route req0 =
     (if Model req0 = '''' then Inl (400, ''missing_model'')
      else
        (let req = setDefaultValues req0
         in case route (Model req) of
              None \<Rightarrow> Inl (400, ''model_not_found'')
            | Some providerName \<Rightarrow>
                if Stream req then Inl (501, ''streaming_not_implemented'')
                else if providerName = ''bedrock'' then
                  (case TranslateOpenAIToConverseAPI L req of
                     Inl err \<Rightarrow> Inl (400, ''translation_failed'')
                   | Inr (providerReq, bedrockModelID) \<Rightarrow>
                       Inr \<lparr>Method = Method providerReq, Path = Path providerReq,
                            Headers = Headers providerReq,
                            Body = ConverseBody (Body providerReq)\<rparr>)
                else
                  Inr \<lparr>Method = ''POST'', Path = ''/chat/completions'',
                       Headers = [(''Content-Type'', ''application/json'')],
                       Body = OpenAIBody req\<rparr>))"

section \<open>Provider router with fallback (package router, Router)\<close>











section \<open>Storage provider interface (package storage)\<close>

record GetObjectRequest =
  get_Bucket :: string
  get_Key :: string
  get_RangeStart :: "int option"
  get_RangeEnd :: "int option"

record GetObjectResponse =
  gr_Body :: string
  gr_ContentType :: string
  gr_ContentLength :: int
  gr_LastModified :: Time
  gr_ETag :: string
  gr_Metadata :: "(string \<times> string) list"

record ServerSideEncryption =
  sse_Algorithm :: string
  sse_KMSKeyID :: string

record PutObjectRequest =
  put_Bucket :: string
  put_Key :: string
  put_Body :: string
  put_ContentType :: string
  put_Metadata :: "(string \<times> string) list"
  put_SSE :: "ServerSideEncryption option"

record PutObjectResponse =
  pr_ETag :: string
  pr_VersionID :: string
  pr_StorageClass :: string

record DeleteObjectRequest =
  del_Bucket :: string
  del_Key :: string
  del_VersionID :: string

record DeleteObjectResponse =
  dr_DeleteMarker :: bool
  dr_VersionID :: string

record ListObjectsRequest =
  list_Bucket :: string
  list_Prefix :: string
  list_Delimiter :: string
  list_MaxKeys :: int
  list_StartAfter :: string
  list_ContinuationToken :: string

record ObjectInfo =
  oi_Key :: string
  oi_Size :: int
  oi_LastModified :: Time
  oi_ETag :: string
  oi_StorageClass :: string

record ListObjectsResponse =
  lr_Objects :: "ObjectInfo list"
  lr_CommonPrefixes :: "string list"
  lr_IsTruncated :: bool
  lr_NextContinuationToken :: string

record HeadObjectRequest =
  head_Bucket :: string
  head_Key :: string

record HeadObjectResponse =
  hr_ContentType :: string
  hr_ContentLength :: int
  hr_LastModified :: Time
  hr_ETag :: string
  hr_Metadata :: "(string \<times> string) list"
  hr_StorageClass :: string

text \<open>\<open>ExpiresIn\<close> of a presign request is a \<open>time.Duration\<close>: a signed 64-bit count of
  nanoseconds.\<close>

record PresignRequest =
  ps_Bucket :: string
  ps_Key :: string
  ps_Operation :: string
  ps_ExpiresIn :: int
  ps_ContentType :: string

definition PresignOperationGet :: string where
  "PresignOperationGet = ''GetObject''"

record PresignedURL =
  URL :: string
  ExpiresIn :: int
  ExpiresAt :: string
  Operation :: string
  Bucket :: string
  Key :: string

record StorageError =
  se_Provider :: string
  se_Operation :: string
  se_StatusCode :: int
  se_Message :: string
  se_Err :: "string option"

text \<open>A Go \<open>error\<close> returned by a provider: a \<open>*storage.StorageError\<close> or any other
  error.\<close>

datatype error = StorageErr StorageError | OtherError string

text \<open>
  The interface \<open>StorageProvider\<close>: one function per method that the handler calls. The
  handler calls at most one method per request, so the provider's own state is not
  threaded through.
\<close>

record StorageProvider =
  GetObject :: "GetObjectRequest \<Rightarrow> error + GetObjectResponse"
  PutObject :: "PutObjectRequest \<Rightarrow> error + PutObjectResponse"
  DeleteObject :: "DeleteObjectRequest \<Rightarrow> error + DeleteObjectResponse"
  ListObjects :: "ListObjectsRequest \<Rightarrow> error + ListObjectsResponse"
  GeneratePresignedURL :: "PresignRequest \<Rightarrow> error + PresignedURL"
  HeadObject :: "HeadObjectRequest \<Rightarrow> error + HeadObjectResponse"

datatype provider_call =
    CallGetObject GetObjectRequest
  | CallPutObject PutObjectRequest
  | CallDeleteObject DeleteObjectRequest
  | CallListObjects ListObjectsRequest
  | CallGeneratePresignedURL PresignRequest
  | CallHeadObject HeadObjectRequest

section \<open>HTTP requests and responses\<close>

text \<open>
  The parts of \<open>http.Request\<close> that the storage handler reads: the URL path, the decoded
  query (\<open>r.URL.Query()\<close>, whose \<open>Get\<close> returns the first value of a key or the empty
  string), the headers under their canonical names, and the body.
\<close>

record Request =
  URL_Path :: string
  URL_Query :: "(string \<times> string) list"
  Header :: "(string \<times> string) list"
  Request_Body :: string

definition Get :: "(string \<times> string) list \<Rightarrow> string \<Rightarrow> string" where
  "Get values k = (case map_of values k of Some v \<Rightarrow> v | None \<Rightarrow> '''')"

text \<open>
  A JSON document as the encoder writes it: objects list their members in the order
  written, which for a Go map is the order of the sorted keys and for a struct the order of
  its fields. \<open>JMarshal v\<close> is the encoding of a slice or map supplied by the provider,
  left unexpanded.
\<close>

datatype govalue =
    GoObjects "ObjectInfo list"
  | GoStrings "string list"
  | GoStringMap "(string \<times> string) list"

datatype json =
    JNull | JBool bool | JInt int | JString string
  | JObject "(string \<times> json) list"
  | JMarshal govalue

datatype body = JSONBody json | RawBody string

record Response =
  status :: int
  headers :: "(string \<times> string) list"
  body :: body

text \<open>
  What the handler leaves on the \<open>http.ResponseWriter\<close>: a written response, or nothing
  because \<open>WriteHeader\<close> panicked. \<open>WriteHeader\<close> panics on a status code below 100 or
  above 999; the panic leaves \<open>Handle\<close> before anything is written.
\<close>

datatype reply = Reply Response | Panic

definition written_status :: "reply \<Rightarrow> int option" where
  "written_status rp = (case rp of Reply resp \<Rightarrow> Some (status resp) | Panic \<Rightarrow> None)"

text \<open>What a call of \<open>Handle\<close> does: its reply and the provider methods it called, in
  order.\<close>

record outcome =
  response :: reply
  calls :: "provider_call list"

section \<open>Decimal integers (strconv.Atoi, the verb %d)\<close>

definition isDigit :: "char \<Rightarrow> bool" where
  "isDigit c = (48 \<le> (of_char c :: nat) \<and> (of_char c :: nat) \<le> 57)"

fun parseDigits :: "string \<Rightarrow> nat \<Rightarrow> nat option" where
  "parseDigits [] acc = Some acc"
| "parseDigits (c # cs) acc =
     (if isDigit c then parseDigits cs (acc * 10 + (of_char c - 48)) else None)"

text \<open>
  \<open>strconv.Atoi\<close> on a platform whose \<open>int\<close> has 64 bits: an optional sign, then one or
  more decimal digits; \<open>None\<close> is the syntax or range error.
\<close>

definition Atoi :: "string \<Rightarrow> int option" where
  "Atoi s =
     (case (case s of
              [] \<Rightarrow> (False, [])
            | c # cs \<Rightarrow>
                if c = CHR ''-'' then (True, cs)
                else if c = CHR ''+'' then (False, cs)
                else (False, s)) of
        (neg, ds) \<Rightarrow>
          if ds = [] then None
          else
            (case parseDigits ds 0 of
               None \<Rightarrow> None
             | Some n \<Rightarrow>
                 (let v = (if neg then - int n else int n)
                  in if v < - (2 ^ 63) \<or> v > 2 ^ 63 - 1 then None else Some v)))"

function natDigits :: "nat \<Rightarrow> string" where
  "natDigits n =
     (if n < 10 then [char_of (48 + n)]
      else natDigits (n div 10) @ [char_of (48 + n mod 10)])"
  by pat_completeness auto
termination
  by (relation "measure id") auto

definition FormatInt :: "int \<Rightarrow> string" where
  "FormatInt i = (if i < 0 then CHR ''-'' # natDigits (nat (- i)) else natDigits (nat i))"

text \<open>Multiplication of signed 64-bit integers wraps around.\<close>

definition wrap64 :: "int \<Rightarrow> int" where
  "wrap64 x = (x + 2 ^ 63) mod 2 ^ 64 - 2 ^ 63"

definition Second :: int where
  "Second = 1000000000"

section \<open>Storage handler (internal/handlers/storage.go)\<close>

record StorageAccessControl =
  AllowedBuckets :: "string list"
  DeniedPrefixes :: "string list"
  AllowedProviders :: "string list"

record StorageHandler =
  sh_providers :: "string \<rightharpoonup> StorageProvider"
  accessControl :: StorageAccessControl

definition NewDefaultAccessControl :: StorageAccessControl where
  "NewDefaultAccessControl =
     \<lparr>AllowedBuckets = [],
      DeniedPrefixes = [''/secret/'', ''/private/'', ''/.''],
      AllowedProviders = [''s3'', ''azure'', ''gcs'']\<rparr>"

definition NewStorageHandler ::
  "(string \<rightharpoonup> StorageProvider) \<Rightarrow> StorageAccessControl option \<Rightarrow> StorageHandler"
where
  "NewStorageHandler ps ac =
     \<lparr>sh_providers = ps,
      accessControl = (case ac of None \<Rightarrow> NewDefaultAccessControl | Some a \<Rightarrow> a)\<rparr>"

definition CheckAccess ::
  "StorageAccessControl \<Rightarrow> Request \<Rightarrow> string \<Rightarrow> string \<Rightarrow> string \<Rightarrow> bool"
where
  "CheckAccess ac r bucket key operation =
     (if length (AllowedBuckets ac) > 0
         \<and> \<not> list_ex (\<lambda>allowed. bucket = allowed) (AllowedBuckets ac)
      then False
      else if list_ex (\<lambda>denied. HasPrefix (''/'' @ key) denied \<or> HasPrefix key denied)
                (DeniedPrefixes ac)
      then False
      else True)"

text \<open>\<open>writeError\<close> sets the content type, writes the status and encodes the error
  object; with a status that \<open>WriteHeader\<close> refuses it panics instead.\<close>

definition writeError :: "int \<Rightarrow> string \<Rightarrow> reply" where
  "writeError statusCode message =
     (if statusCode < 100 \<or> statusCode > 999 then Panic
      else Reply
        \<lparr>status = statusCode,
         headers = [(''Content-Type'', ''application/json'')],
         body = JSONBody (JObject [(''error'',
                  JObject [(''code'', JInt statusCode), (''message'', JString message)])])\<rparr>)"

definition handleStorageError :: "error \<Rightarrow> reply" where
  "handleStorageError err =
     (case err of
        StorageErr storageErr \<Rightarrow> writeError (se_StatusCode storageErr) (se_Message storageErr)
      | OtherError e \<Rightarrow> writeError 500 ''Storage operation failed'')"

definition jsonOK :: "json \<Rightarrow> reply" where
  "jsonOK j = Reply \<lparr>status = 200, headers = [(''Content-Type'', ''application/json'')],
                     body = JSONBody j\<rparr>"

text \<open>The JSON encoding of a \<open>PresignedURL\<close>, by the tags of its fields.\<close>

definition encodePresignedURL :: "PresignedURL \<Rightarrow> json" where
  "encodePresignedURL p =
     JObject [(''url'', JString (URL p)),
              (''expires_in'', JInt (ExpiresIn p)),
              (''expires_at'', JString (ExpiresAt p)),
              (''operation'', JString (Operation p)),
              (''bucket'', JString (Bucket p)),
              (''key'', JString (Key p))]"

text \<open>The cases of the \<open>switch operation\<close> in \<open>Handle\<close>, one definition for each.\<close>

definition caseGet :: "golib \<Rightarrow> StorageProvider \<Rightarrow> string \<Rightarrow> string \<Rightarrow> outcome" where
  "caseGet L provider bucket key =
     (if key = '''' then
        \<lparr>response = writeError 400 ''Object key is required for get operation'', calls = []\<rparr>
      else
        (let req = \<lparr>get_Bucket = bucket, get_Key = key,
                    get_RangeStart = None, get_RangeEnd = None\<rparr>
         in \<lparr>response =
               (case GetObject provider req of
                  Inl err \<Rightarrow> handleStorageError err
                | Inr resp \<Rightarrow>
                    Reply \<lparr>status = 200,
                     headers = [(''Content-Type'', gr_ContentType resp),
                                (''Content-Length'', FormatInt (gr_ContentLength resp)),
                                (''ETag'', gr_ETag resp),
                                (''Last-Modified'',
                                   FormatTime L ''Mon, 02 Jan 2006 15:04:05 GMT''
                                     (gr_LastModified resp))],
                     body = RawBody (gr_Body resp)\<rparr>),
              calls = [CallGetObject req]\<rparr>))"

definition casePut :: "StorageProvider \<Rightarrow> Request \<Rightarrow> string \<Rightarrow> string \<Rightarrow> outcome" where
  "casePut provider r bucket key =
     (if key = '''' then
        \<lparr>response = writeError 400 ''Object key is required for put operation'', calls = []\<rparr>
      else
        (let contentType = (if Get (Header r) ''Content-Type'' = ''''
                            then ''application/octet-stream''
                            else Get (Header r) ''Content-Type'');
             req = \<lparr>put_Bucket = bucket, put_Key = key, put_Body = Request_Body r,
                    put_ContentType = contentType, put_Metadata = [], put_SSE = None\<rparr>
         in \<lparr>response =
               (case PutObject provider req of
                  Inl err \<Rightarrow> handleStorageError err
                | Inr resp \<Rightarrow>
                    jsonOK (JObject [(''etag'', JString (pr_ETag resp)),
                                     (''success'', JBool True),
                                     (''version_id'', JString (pr_VersionID resp))])),
              calls = [CallPutObject req]\<rparr>))"

definition caseDelete :: "StorageProvider \<Rightarrow> string \<Rightarrow> string \<Rightarrow> outcome" where
  "caseDelete provider bucket key =
     (if key = '''' then
        \<lparr>response = writeError 400 ''Object key is required for delete operation'', calls = []\<rparr>
      else
        (let req = \<lparr>del_Bucket = bucket, del_Key = key, del_VersionID = ''''\<rparr>
         in \<lparr>response =
               (case DeleteObject provider req of
                  Inl err \<Rightarrow> handleStorageError err
                | Inr resp \<Rightarrow> jsonOK (JObject [(''success'', JBool True)])),
              calls = [CallDeleteObject req]\<rparr>))"

definition caseList :: "StorageProvider \<Rightarrow> Request \<Rightarrow> string \<Rightarrow> outcome" where
  "caseList provider r bucket =
     (let maxKeysStr = Get (URL_Query r) ''max_keys'';
          maxKeys = (if maxKeysStr \<noteq> '''' then
                       (case Atoi maxKeysStr of Some parsed \<Rightarrow> parsed | None \<Rightarrow> 1000)
                     else 1000);
          req = \<lparr>list_Bucket = bucket,
                 list_Prefix = Get (URL_Query r) ''prefix'',
                 list_Delimiter = Get (URL_Query r) ''delimiter'',
                 list_MaxKeys = maxKeys,
                 list_StartAfter = '''',
                 list_ContinuationToken = Get (URL_Query r) ''continuation_token''\<rparr>
      in \<lparr>response =
            (case ListObjects provider req of
               Inl err \<Rightarrow> handleStorageError err
             | Inr resp \<Rightarrow>
                 jsonOK (JObject
                   [(''common_prefixes'', JMarshal (GoStrings (lr_CommonPrefixes resp))),
                    (''is_truncated'', JBool (lr_IsTruncated resp)),
                    (''next_continuation_token'', JString (lr_NextContinuationToken resp)),
                    (''objects'', JMarshal (GoObjects (lr_Objects resp)))])),
           calls = [CallListObjects req]\<rparr>)"

definition caseHead :: "golib \<Rightarrow> StorageProvider \<Rightarrow> string \<Rightarrow> string \<Rightarrow> outcome" where
  "caseHead L provider bucket key =
     (if key = '''' then
        \<lparr>response = writeError 400 ''Object key is required for head operation'', calls = []\<rparr>
      else
        (let req = \<lparr>head_Bucket = bucket, head_Key = key\<rparr>
         in \<lparr>response =
               (case HeadObject provider req of
                  Inl err \<Rightarrow> handleStorageError err
                | Inr resp \<Rightarrow>
                    jsonOK (JObject
                      [(''content_length'', JInt (hr_ContentLength resp)),
                       (''content_type'', JString (hr_ContentType resp)),
                       (''etag'', JString (hr_ETag resp)),
                       (''last_modified'',
                          JString (FormatTime L ''2006-01-02T15:04:05Z07:00''
                                     (hr_LastModified resp))),
                       (''metadata'', JMarshal (GoStringMap (hr_Metadata resp))),
                       (''storage_class'', JString (hr_StorageClass resp))])),
              calls = [CallHeadObject req]\<rparr>))"

definition casePresign :: "StorageProvider \<Rightarrow> Request \<Rightarrow> string \<Rightarrow> string \<Rightarrow> outcome" where
  "casePresign provider r bucket key =
     (if key = '''' then
        \<lparr>response = writeError 400 ''Object key is required for presign operation'',
         calls = []\<rparr>
      else
        (let ttlStr = (if Get (URL_Query r) ''ttl'' = '''' then ''3600''
                       else Get (URL_Query r) ''ttl'')
         in case Atoi ttlStr of
              None \<Rightarrow> \<lparr>response = writeError 400 ''Invalid TTL value'', calls = []\<rparr>
            | Some ttlSeconds \<Rightarrow>
                (let opStr = Get (URL_Query r) ''operation'';
                     presignOp = (if opStr \<noteq> '''' then opStr else PresignOperationGet);
                     req = \<lparr>ps_Bucket = bucket, ps_Key = key, ps_Operation = presignOp,
                            ps_ExpiresIn = wrap64 (ttlSeconds * Second),
                            ps_ContentType = ''''\<rparr>
                 in \<lparr>response =
                       (case GeneratePresignedURL provider req of
                          Inl err \<Rightarrow> handleStorageError err
                        | Inr resp \<Rightarrow> jsonOK (encodePresignedURL resp)),
                      calls = [CallGeneratePresignedURL req]\<rparr>)))"

definition dispatch ::
  "golib \<Rightarrow> StorageProvider \<Rightarrow> Request \<Rightarrow> string \<Rightarrow> string \<Rightarrow> string \<Rightarrow> outcome"
where
  "dispatch L provider r operation bucket key =
     (if operation = ''get'' then caseGet L provider bucket key
      else if operation = ''put'' then casePut provider r bucket key
      else if operation = ''delete'' then caseDelete provider bucket key
      else if operation = ''list'' then caseList provider r bucket
      else if operation = ''head'' then caseHead L provider bucket key
      else if operation = ''presign'' then casePresign provider r bucket key
      else \<lparr>response = writeError 400 (''Unknown storage operation: '' @ operation),
            calls = []\<rparr>)"

text \<open>
  \<open>Handle\<close>. After \<open>SplitN\<close> with limit 5 and the length check, \<open>parts\<close> has four or five
  elements, so \<open>bucketAndKey = parts[3:]\<close> has one or two.
\<close>

definition Handle :: "golib \<Rightarrow> StorageHandler \<Rightarrow> Request \<Rightarrow> outcome" where
  "Handle L h r =
     (let path = TrimPrefix (URL_Path r) ''/-'';
          parts = SplitN path CHR ''/'' 5
      in if length parts < 4 then
           \<lparr>response = writeError 400 ''Invalid storage path format'', calls = []\<rparr>
         else
           (let providerName = parts ! 0;
                operation = parts ! 2;
                bucketAndKey = drop 3 parts
            in case sh_providers h providerName of
                 None \<Rightarrow>
                   \<lparr>response = writeError 404
                       (''Storage provider '' @ Quote L providerName @ '' not found''),
                    calls = []\<rparr>
               | Some provider \<Rightarrow>
                   (let bucket = (if length bucketAndKey > 0 then bucketAndKey ! 0 else '''');
                        key = (if length bucketAndKey > 1
                               then Join (drop 1 bucketAndKey) ''/'' else '''')
                    in if \<not> CheckAccess (accessControl h) r bucket key operation then
                         \<lparr>response = writeError 403 ''Access denied'', calls = []\<rparr>
                       else dispatch L provider r operation bucket key)))"

text \<open>The provider name, operation, bucket and key that \<open>Handle\<close> reads off a URL path;
  \<open>None\<close> when the path has fewer than four parts.\<close>

definition storagePath :: "string \<Rightarrow> (string \<times> string \<times> string \<times> string) option" where
  "storagePath urlPath =
     (let parts = SplitN (TrimPrefix urlPath ''/-'') CHR ''/'' 5
      in if length parts < 4 then None
         else Some (parts ! 0, parts ! 2, parts ! 3,
                    if length parts > 4 then parts ! 4 else ''''))"


section \<open>Concrete inputs for the examples\<close>

definition stubLib :: golib where
  "stubLib = \<lparr>Sprintv = (\<lambda>v. ''<value>''), Marshal = (\<lambda>v. ''{}''),
              Quote = (\<lambda>s. [CHR 0x22] @ s @ [CHR 0x22]),
              FormatTime = (\<lambda>layout t. layout)\<rparr>"

definition helloRequest :: ChatCompletionRequest where
  "helloRequest =
     \<lparr>Model = ''claude-3-sonnet'',
      Messages = [\<lparr>msg_Role = ''user'', msg_Content = AString ''hi'', msg_ToolCalls = []\<rparr>],
      MaxTokens = 0, Temperature = 0, TopP = 0, Stop = [], Stream = False,
      Tools = [], Functions = [], ToolChoice = ANil\<rparr>"

definition nativeIdRequest :: ChatCompletionRequest where
  "nativeIdRequest = helloRequest\<lparr>Model := ''anthropic.claude-3-sonnet-20240229-v1:0''\<rparr>"

definition toolUseResponse :: ConverseResponse where
  "toolUseResponse =
     \<lparr>Output = \<lparr>out_Message = Some
        \<lparr>cm_Role = ''assistant'',
         cm_Content =
           [ContentBlock (Some ''Let me check. '') None None None None,
            ContentBlock None None None
              (Some \<lparr>ToolUseId = ''tooluse_1'', Name = ''get_weather'',
                     Input = Some [(''city'', AString ''Paris'')]\<rparr>) None,
            ContentBlock (Some ''Done.'') None None None None]\<rparr>\<rparr>,
      StopReason = ''tool_use'',
      cv_Usage = \<lparr>InputTokens = 5, OutputTokens = 7, cu_TotalTokens = 12\<rparr>,
      Metrics = None\<rparr>"



text \<open>A provider that signs every URL and finds no object, and a handler built on it with
  the default access control.\<close>

definition notFound :: error where
  "notFound = StorageErr \<lparr>se_Provider = ''s3'', se_Operation = ''GetObject'',
     se_StatusCode = 404, se_Message = ''Object not found'', se_Err = None\<rparr>"

definition exampleProvider :: StorageProvider where
  "exampleProvider =
     \<lparr>GetObject = (\<lambda>q. Inl notFound),
      PutObject = (\<lambda>q. Inr \<lparr>pr_ETag = ''etag-1'', pr_VersionID = ''v1'', pr_StorageClass = ''''\<rparr>),
      DeleteObject = (\<lambda>q. Inr \<lparr>dr_DeleteMarker = False, dr_VersionID = ''''\<rparr>),
      ListObjects = (\<lambda>q. Inr \<lparr>lr_Objects = [], lr_CommonPrefixes = [],
                             lr_IsTruncated = False, lr_NextContinuationToken = ''''\<rparr>),
      GeneratePresignedURL =
        (\<lambda>q. Inr \<lparr>URL = ''https://'' @ ps_Bucket q @ ''.s3.amazonaws.com/'' @ ps_Key q,
                   ExpiresIn = ps_ExpiresIn q div Second,
                   ExpiresAt = ''2025-01-15T13:00:00Z'',
                   Operation = ps_Operation q,
                   Bucket = ps_Bucket q,
                   Key = ps_Key q\<rparr>),
      HeadObject = (\<lambda>q. Inl notFound)\<rparr>"

definition exampleHandler :: StorageHandler where
  "exampleHandler = NewStorageHandler [''s3'' \<mapsto> exampleProvider] None"

definition storageRequest :: "string \<Rightarrow> (string \<times> string) list \<Rightarrow> Request" where
  "storageRequest p q = \<lparr>URL_Path = p, URL_Query = q, Header = [], Request_Body = ''''\<rparr>"

definition toolResultRequest :: ChatCompletionRequest where
  "toolResultRequest =
     helloRequest\<lparr>Messages :=
       [\<lparr>msg_Role = ''system'', msg_Content = AString ''Be brief.'', msg_ToolCalls = []\<rparr>,
        \<lparr>msg_Role = ''user'', msg_Content = AString ''What is 6 times 7?'', msg_ToolCalls = []\<rparr>,
        \<lparr>msg_Role = ''tool'', msg_Content = AString ''42'', msg_ToolCalls = []\<rparr>]\<rparr>"


section \<open>Facts about the string helpers\<close>

lemma HasPrefix_append [simp]: "HasPrefix (p @ s) p"
  by (simp add: HasPrefix_def)

lemma HasPrefix_iff: "HasPrefix s p \<longleftrightarrow> (\<exists>t. s = p @ t)"
  unfolding HasPrefix_def
  by (metis append_eq_conv_conj append_take_drop_id length_append le_add1)

lemma take_Suc0_neq: "Suc 0 < length p \<Longrightarrow> take (Suc 0) s \<noteq> p"
proof
  assume "Suc 0 < length p" and "take (Suc 0) s = p"
  then have "Suc 0 < length (take (Suc 0) s)" by simp
  then show False by simp
qed

lemma take_one_neq: "1 < length p \<Longrightarrow> take 1 s \<noteq> p"
  using take_Suc0_neq [of p s] by simp

section \<open>Pattern routing of model names\<close>

lemma matchModelPattern_claude_3_sonnet:
  "matchModelPattern ''claude-3-sonnet'' = ''bedrock''"
  by (simp add: matchModelPattern_def HasSuffix_def HasPrefix_def bedrockPrefixes_def)

lemma matchModelPattern_anthropic_suffix:
  "matchModelPattern ''claude-3-sonnet-20240229-anthropic'' = ''anthropic''"
  by (simp add: matchModelPattern_def HasSuffix_def HasPrefix_def)

lemma matchModelPattern_cohere_command_r_plus:
  "matchModelPattern ''cohere.command-r-plus'' = ''oracle''"
  by (simp add: matchModelPattern_def HasSuffix_def HasPrefix_def)

lemma matchModelPattern_cohere_command_text:
  "matchModelPattern ''cohere.command-text'' = ''bedrock''"
  by (simp add: matchModelPattern_def HasSuffix_def HasPrefix_def bedrockPrefixes_def)

lemma matchModelPattern_azure_deployment:
  "matchModelPattern ''gpt-4-azure-deployment'' = ''azure''"
  by (simp add: matchModelPattern_def HasSuffix_def HasPrefix_def)

text \<open>
  C5. A model name without an entry in the exact mapping is routed by pattern:
  \<open>claude-3-sonnet\<close> to bedrock, \<open>claude-3-sonnet-20240229-anthropic\<close> to anthropic,
  \<open>cohere.command-r-plus\<close> to oracle, \<open>cohere.command-text\<close> to bedrock and
  \<open>gpt-4-azure-deployment\<close> to azure.
\<close>

theorem pattern_routing:
  assumes "modelMap r ''claude-3-sonnet'' = None"
    and "modelMap r ''claude-3-sonnet-20240229-anthropic'' = None"
    and "modelMap r ''cohere.command-r-plus'' = None"
    and "modelMap r ''cohere.command-text'' = None"
    and "modelMap r ''gpt-4-azure-deployment'' = None"
  shows "GetProviderForModel r ''claude-3-sonnet'' = ''bedrock''
       \<and> GetProviderForModel r ''claude-3-sonnet-20240229-anthropic'' = ''anthropic''
       \<and> GetProviderForModel r ''cohere.command-r-plus'' = ''oracle''
       \<and> GetProviderForModel r ''cohere.command-text'' = ''bedrock''
       \<and> GetProviderForModel r ''gpt-4-azure-deployment'' = ''azure''"
  using assms
  by (simp add: GetProviderForModel_def matchModelPattern_claude_3_sonnet
      matchModelPattern_anthropic_suffix matchModelPattern_cohere_command_r_plus
      matchModelPattern_cohere_command_text matchModelPattern_azure_deployment)

theorem pattern_routing_witness:
  "modelMap (NewModelRouter :: unit ModelRouter) ''claude-3-sonnet'' = None
   \<and> GetProviderForModel (NewModelRouter :: unit ModelRouter) ''claude-3-sonnet'' = ''bedrock''
   \<and> GetProviderForModel (NewModelRouter :: unit ModelRouter)
        ''claude-3-sonnet-20240229-anthropic'' = ''anthropic''
   \<and> GetProviderForModel (NewModelRouter :: unit ModelRouter) ''cohere.command-r-plus'' = ''oracle''
   \<and> GetProviderForModel (NewModelRouter :: unit ModelRouter) ''cohere.command-text'' = ''bedrock''
   \<and> GetProviderForModel (NewModelRouter :: unit ModelRouter) ''gpt-4-azure-deployment'' = ''azure''"
  using pattern_routing [of "NewModelRouter :: unit ModelRouter"]
  by (simp add: NewModelRouter_def)

section \<open>Bedrock model identifiers\<close>

lemma GetBedrockModelID_lookup:
  "GetBedrockModelID name =
     (case BedrockModelIDMap name of Some modelID \<Rightarrow> (modelID, True) | None \<Rightarrow> ('''', False))"
  by (simp add: GetBedrockModelID_def take_Suc0_neq)

lemma native_id_not_a_key:
  "BedrockModelIDMap ''anthropic.claude-3-sonnet-20240229-v1:0'' = None"
  by (simp add: BedrockModelIDMap_def)

text \<open>
  C10. \<open>GetBedrockModelID\<close> succeeds exactly on the keys of \<open>BedrockModelIDMap\<close>: the
  one-byte slice \<open>name[0:1]\<close> never equals one of the four longer prefixes, so the
  pass-through branch is dead, and both Bedrock translators return the error for every
  model name outside the map, the native identifier
  \<open>anthropic.claude-3-sonnet-20240229-v1:0\<close> among them.
\<close>

theorem GetBedrockModelID_exactly_map_keys:
  "(snd (GetBedrockModelID name) \<longleftrightarrow> name \<in> dom BedrockModelIDMap)
   \<and> take 1 name \<noteq> ''anthropic.'' \<and> take 1 name \<noteq> ''amazon.''
   \<and> take 1 name \<noteq> ''meta.'' \<and> take 1 name \<noteq> ''mistral.''
   \<and> (Model req \<notin> dom BedrockModelIDMap \<longrightarrow>
        TranslateOpenAIToConverseAPI L req = Inl (ModelNotSupported (Model req))
        \<and> TranslateOpenAIToBedrock L req = Inl (ModelNotSupported (Model req)))
   \<and> ''anthropic.claude-3-sonnet-20240229-v1:0'' \<notin> dom BedrockModelIDMap"
proof -
  have a: "snd (GetBedrockModelID name) \<longleftrightarrow> name \<in> dom BedrockModelIDMap"
    by (auto simp: GetBedrockModelID_lookup split: option.splits)
  have b: "TranslateOpenAIToConverseAPI L req = Inl (ModelNotSupported (Model req))
           \<and> TranslateOpenAIToBedrock L req = Inl (ModelNotSupported (Model req))"
    if "Model req \<notin> dom BedrockModelIDMap"
  proof -
    from that have "GetBedrockModelID (Model req) = ('''', False)"
      by (auto simp: GetBedrockModelID_lookup split: option.splits)
    then show ?thesis
      by (simp add: TranslateOpenAIToConverseAPI_def TranslateOpenAIToBedrock_def)
  qed
  have c: "''anthropic.claude-3-sonnet-20240229-v1:0'' \<notin> dom BedrockModelIDMap"
    using native_id_not_a_key by blast
  from a b c show ?thesis by (simp add: take_Suc0_neq)
qed

theorem GetBedrockModelID_exactly_map_keys_witness:
  "Model (nativeIdRequest) \<notin> dom BedrockModelIDMap
   \<and> GetBedrockModelID ''anthropic.claude-3-sonnet-20240229-v1:0'' = ('''', False)
   \<and> TranslateOpenAIToConverseAPI stubLib nativeIdRequest
        = Inl (ModelNotSupported ''anthropic.claude-3-sonnet-20240229-v1:0'')
   \<and> TranslateOpenAIToBedrock stubLib nativeIdRequest
        = Inl (ModelNotSupported ''anthropic.claude-3-sonnet-20240229-v1:0'')"
proof -
  have m: "Model nativeIdRequest = ''anthropic.claude-3-sonnet-20240229-v1:0''"
    by (simp add: nativeIdRequest_def helloRequest_def)
  have k: "Model nativeIdRequest \<notin> dom BedrockModelIDMap"
    using native_id_not_a_key m by auto
  have g: "GetBedrockModelID ''anthropic.claude-3-sonnet-20240229-v1:0'' = ('''', False)"
    by (simp add: GetBedrockModelID_lookup native_id_not_a_key)
  from GetBedrockModelID_exactly_map_keys
         [of "''anthropic.claude-3-sonnet-20240229-v1:0''" nativeIdRequest stubLib] k m g
  show ?thesis by simp
qed

section \<open>The default of max_tokens\<close>

lemma TranslateOpenAIToConverseAPI_maxTokens:
  assumes "TranslateOpenAIToConverseAPI L req = Inr (providerReq, modelID)"
  shows "\<exists>ic. cr_InferenceConfig (Body providerReq) = Some ic
           \<and> ic_MaxTokens ic = (if MaxTokens req > 0 then Some (MaxTokens req) else None)"
  using assms
  by (auto simp: TranslateOpenAIToConverseAPI_def split: prod.splits if_splits)

lemma TranslateOpenAIToBedrock_maxTokens:
  assumes "TranslateOpenAIToBedrock L req = Inr (providerReq, modelID)"
  shows "br_MaxTokens (Body providerReq) = (if MaxTokens req = 0 then 4096 else MaxTokens req)"
  using assms
  by (auto simp: TranslateOpenAIToBedrock_def split: prod.splits if_splits)

lemma GetBedrockModelID_claude_3_sonnet:
  "GetBedrockModelID ''claude-3-sonnet'' = (''anthropic.claude-3-sonnet-20240229-v1:0'', True)"
  by (simp add: GetBedrockModelID_lookup BedrockModelIDMap_def)

text \<open>
  C4, as amended. In a request translated to the Converse API, a positive \<open>max_tokens\<close>
  is carried in \<open>inferenceConfig.maxTokens\<close> and every other value leaves \<open>maxTokens\<close>
  out: the translator has no default. On the way through the chat-completion handler an
  absent \<open>max_tokens\<close> (zero after decoding) is set to 4096 before the translation, so
  \<open>maxTokens\<close> is 4096 there; a negative \<open>max_tokens\<close> is left out on that way too.
\<close>

theorem converse_maxTokens:
  "(TranslateOpenAIToConverseAPI L req = Inr (providerReq, modelID) \<longrightarrow>
      (\<exists>ic. cr_InferenceConfig (Body providerReq) = Some ic
         \<and> ic_MaxTokens ic = (if MaxTokens req > 0 then Some (MaxTokens req) else None)))
   \<and> (ChatCompletions L route req = Inr upstream \<and> Body upstream = ConverseBody converseReq \<longrightarrow>
      (\<exists>ic. cr_InferenceConfig converseReq = Some ic
         \<and> ic_MaxTokens ic =
             (if MaxTokens req = 0 then Some 4096
              else if MaxTokens req > 0 then Some (MaxTokens req)
              else None)))"
proof -
  have b: "\<exists>ic. cr_InferenceConfig converseReq = Some ic
         \<and> ic_MaxTokens ic =
             (if MaxTokens req = 0 then Some 4096
              else if MaxTokens req > 0 then Some (MaxTokens req)
              else None)"
    if c: "ChatCompletions L route req = Inr upstream"
      and u: "Body upstream = ConverseBody converseReq"
  proof -
    let ?req = "setDefaultValues req"
    from c u obtain pr mid where
      t: "TranslateOpenAIToConverseAPI L ?req = Inr (pr, mid)" and b: "converseReq = Body pr"
      by (auto simp: ChatCompletions_def Let_def
               split: if_splits option.splits sum.splits prod.splits)
    from TranslateOpenAIToConverseAPI_maxTokens [OF t] b obtain ic where
      ic: "cr_InferenceConfig converseReq = Some ic"
          "ic_MaxTokens ic = (if MaxTokens ?req > 0 then Some (MaxTokens ?req) else None)"
      by auto
    have "MaxTokens ?req = (if MaxTokens req = 0 then 4096 else MaxTokens req)"
      by (simp add: setDefaultValues_def)
    with ic show ?thesis by auto
  qed
  show ?thesis
    apply (intro conjI impI)
    subgoal by (rule TranslateOpenAIToConverseAPI_maxTokens)
    subgoal by (rule b) simp_all
    done
qed

theorem converse_maxTokens_witness:
  "\<exists>upstream converseReq ic.
      ChatCompletions stubLib (\<lambda>m. Some ''bedrock'') helloRequest = Inr upstream
      \<and> Body upstream = ConverseBody converseReq
      \<and> MaxTokens helloRequest = 0
      \<and> cr_InferenceConfig converseReq = Some ic
      \<and> ic_MaxTokens ic = Some 4096"
proof -
  have m: "MaxTokens helloRequest = 0"
    by (simp add: helloRequest_def)
  note g = GetBedrockModelID_claude_3_sonnet
  obtain upstream where
    c: "ChatCompletions stubLib (\<lambda>m. Some ''bedrock'') helloRequest = Inr upstream"
    by (simp add: ChatCompletions_def setDefaultValues_def helloRequest_def
        TranslateOpenAIToConverseAPI_def g convertToContentBlocks_def)
  then obtain converseReq where b: "Body upstream = ConverseBody converseReq"
    by (auto simp: ChatCompletions_def setDefaultValues_def helloRequest_def
        TranslateOpenAIToConverseAPI_def g convertToContentBlocks_def)
  from converse_maxTokens [of stubLib helloRequest _ _ "\<lambda>m. Some ''bedrock''" upstream converseReq]
    m c b
  show ?thesis by auto
qed

text \<open>
  The claim C4 as stated fails. The translation of a request without \<open>max_tokens\<close> has
  no \<open>maxTokens\<close>, not 4096; and a request with \<open>max_tokens\<close> of -1 that goes through
  the handler reaches the Converse API without \<open>maxTokens\<close>.
\<close>

theorem converse_maxTokens_counterexample:
  "MaxTokens helloRequest = 0
   \<and> TranslateOpenAIToConverseAPI stubLib helloRequest =
       Inr (\<lparr>Method = ''POST'',
             Path = ''/model/anthropic.claude-3-sonnet-20240229-v1:0/converse'',
             Headers = [(''Content-Type'', ''application/json''),
                        (''Accept'', ''application/json'')],
             Body = \<lparr>cr_Messages =
                       [\<lparr>cm_Role = ''user'',
                         cm_Content = [ContentBlock (Some ''hi'') None None None None]\<rparr>],
                     cr_System = [],
                     cr_InferenceConfig = Some
                       \<lparr>ic_MaxTokens = None, ic_Temperature = None, ic_TopP = None,
                        ic_StopSequences = []\<rparr>,
                     cr_ToolConfig = None,
                     cr_AdditionalModelRequestFields = None\<rparr>\<rparr>,
            ''anthropic.claude-3-sonnet-20240229-v1:0'')
   \<and> ChatCompletions stubLib (\<lambda>m. Some ''bedrock'') (helloRequest\<lparr>MaxTokens := - 1\<rparr>) =
       Inr \<lparr>Method = ''POST'',
            Path = ''/model/anthropic.claude-3-sonnet-20240229-v1:0/converse'',
            Headers = [(''Content-Type'', ''application/json''),
                       (''Accept'', ''application/json'')],
            Body = ConverseBody
                    \<lparr>cr_Messages =
                       [\<lparr>cm_Role = ''user'',
                         cm_Content = [ContentBlock (Some ''hi'') None None None None]\<rparr>],
                     cr_System = [],
                     cr_InferenceConfig = Some
                       \<lparr>ic_MaxTokens = None, ic_Temperature = Some 1, ic_TopP = None,
                        ic_StopSequences = []\<rparr>,
                     cr_ToolConfig = None,
                     cr_AdditionalModelRequestFields = None\<rparr>\<rparr>"
  by (simp add: ChatCompletions_def setDefaultValues_def helloRequest_def
      TranslateOpenAIToConverseAPI_def GetBedrockModelID_claude_3_sonnet
      convertToContentBlocks_def TextBlock_def)

section \<open>Text and tool calls through the Converse translators\<close>

lemma blocksLoop_eq:
  "blocksLoop L bs (content, toolCalls) =
     (content @ concat (List.map_filter Text bs),
      toolCalls @ map (toolCallOf L) (List.map_filter ToolUse bs))"
  by (induction bs arbitrary: content toolCalls)
     (simp_all add: List.map_filter_simps split: option.splits)

lemma map_filter_twice:
  "List.map_filter g (List.map_filter f xs) = List.map_filter (\<lambda>x. Option.bind (f x) g) xs"
  by (induction xs) (simp_all add: List.map_filter_simps split: option.splits)

lemma convertContentPartToBlock_Text:
  "Option.bind (convertContentPartToBlock m) Text =
     (if assertString (map_of m ''type'') = Some ''text''
      then assertString (map_of m ''text'') else None)"
  by (auto simp: convertContentPartToBlock_def TextBlock_def Let_def
           split: option.splits if_splits)

lemma converseMessagesLoop_eq:
  "converseMessagesLoop L msgs (cms, sys) =
     (cms @ map (\<lambda>m. \<lparr>cm_Role = msg_Role m,
                       cm_Content = convertToContentBlocks L (msg_Content m)\<rparr>)
              (filter (\<lambda>m. msg_Role m \<noteq> ''system'' \<and> msg_Role m \<noteq> ''function''
                           \<and> msg_Role m \<noteq> ''tool''
                           \<and> convertToContentBlocks L (msg_Content m) \<noteq> []) msgs),
      sys @ map (\<lambda>m. \<lparr>sys_Text = extractTextContent L (msg_Content m)\<rparr>)
              (filter (\<lambda>m. msg_Role m = ''system'') msgs))"
  by (induction msgs arbitrary: cms sys) (simp_all add: Let_def)

lemma convertToContentBlocks_array_text:
  "List.map_filter Text (convertToContentBlocks L (ASlice ps)) =
     List.map_filter
       (\<lambda>part. case part of
                  AMap m \<Rightarrow> (if assertString (map_of m ''type'') = Some ''text''
                              then assertString (map_of m ''text'') else None)
                | _ \<Rightarrow> None) ps"
proof -
  have "(\<lambda>x. Option.bind
               (case x of AMap partMap \<Rightarrow> convertContentPartToBlock partMap | _ \<Rightarrow> None) Text)
      = (\<lambda>part. case part of
                  AMap m \<Rightarrow> (if assertString (map_of m ''type'') = Some ''text''
                              then assertString (map_of m ''text'') else None)
                | _ \<Rightarrow> None)"
    by (rule ext) (simp add: convertContentPartToBlock_Text split: any.splits)
  then show ?thesis
    by (simp add: convertToContentBlocks_def map_filter_twice)
qed

lemma TranslateOpenAIToConverseAPI_messages:
  assumes "TranslateOpenAIToConverseAPI L req = Inr (providerReq, modelID)"
  shows "cr_Messages (Body providerReq) =
           map (\<lambda>m. \<lparr>cm_Role = msg_Role m,
                      cm_Content = convertToContentBlocks L (msg_Content m)\<rparr>)
             (filter (\<lambda>m. msg_Role m \<noteq> ''system'' \<and> msg_Role m \<noteq> ''function''
                          \<and> msg_Role m \<noteq> ''tool''
                          \<and> convertToContentBlocks L (msg_Content m) \<noteq> []) (Messages req))"
  using assms
  by (auto simp: TranslateOpenAIToConverseAPI_def converseMessagesLoop_eq
           split: prod.splits if_splits)

lemma TranslateConverseToOpenAI_message:
  "resp_Choices (TranslateConverseToOpenAI L resp model rid) =
     [\<lparr>ch_Index = 0,
       ch_Message =
         \<lparr>msg_Role = ''assistant'',
          msg_Content =
            (if concat (List.map_filter Text
                  (case out_Message (Output resp) of None \<Rightarrow> [] | Some m \<Rightarrow> cm_Content m)) = ''''
             then ANil
             else AString (concat (List.map_filter Text
                  (case out_Message (Output resp) of None \<Rightarrow> [] | Some m \<Rightarrow> cm_Content m)))),
          msg_ToolCalls =
            map (toolCallOf L) (List.map_filter ToolUse
                  (case out_Message (Output resp) of None \<Rightarrow> [] | Some m \<Rightarrow> cm_Content m))\<rparr>,
       ch_FinishReason = mapConverseStopReason (StopReason resp)\<rparr>]"
  by (cases "out_Message (Output resp)")
     (simp_all add: TranslateConverseToOpenAI_def blocksLoop_eq List.map_filter_simps)

lemma TranslateOpenAIToConverseAPI_system:
  assumes "TranslateOpenAIToConverseAPI L req = Inr (providerReq, modelID)"
  shows "cr_System (Body providerReq) =
           map (\<lambda>m. \<lparr>sys_Text = extractTextContent L (msg_Content m)\<rparr>)
             (filter (\<lambda>m. msg_Role m = ''system'') (Messages req))"
  using assms
  by (auto simp: TranslateOpenAIToConverseAPI_def converseMessagesLoop_eq
           split: prod.splits if_splits)

lemma other_content:
  assumes "\<forall>s. c \<noteq> AString s" and "\<forall>ps. c \<noteq> ASlice ps"
  shows "convertToContentBlocks L c = [ContentBlock (Some (Sprintv L c)) None None None None]
       \<and> extractTextContent L c = Sprintv L c"
  using assms
  by (cases c) (simp_all add: convertToContentBlocks_def extractTextContent_def TextBlock_def)

text \<open>
  C7, as amended. On the way in, the system messages of the OpenAI request become the
  system blocks, in order, and the messages whose role is neither system, function nor
  tool become the Converse messages, in order and with the same role, a message that
  yields no block being left out; messages of role function or tool are dropped, text
  included. A string content becomes exactly one text block with the same string (for a
  system message, the same string as system text); of an array content the parts of type
  text become text blocks with their strings in order (for a system message, the text
  strings of the parts joined by newlines); a content that is neither a string nor an
  array is replaced by its \<open>%v\<close> rendering. On the way back, the content of the OpenAI
  message is the concatenation of the text blocks of the Converse message (no content
  when that is empty), and its \<open>tool_calls\<close> are the \<open>toolUse\<close> blocks in order, each with
  \<open>id\<close> equal to \<open>toolUseId\<close> and \<open>function.name\<close> equal to \<open>name\<close>.
\<close>

theorem converse_text_and_tool_calls:
  "(TranslateOpenAIToConverseAPI L req = Inr (providerReq, modelID) \<longrightarrow>
      cr_Messages (Body providerReq) =
        map (\<lambda>m. \<lparr>cm_Role = msg_Role m,
                   cm_Content = convertToContentBlocks L (msg_Content m)\<rparr>)
          (filter (\<lambda>m. msg_Role m \<noteq> ''system'' \<and> msg_Role m \<noteq> ''function''
                       \<and> msg_Role m \<noteq> ''tool''
                       \<and> convertToContentBlocks L (msg_Content m) \<noteq> []) (Messages req))
      \<and> cr_System (Body providerReq) =
        map (\<lambda>m. \<lparr>sys_Text = extractTextContent L (msg_Content m)\<rparr>)
          (filter (\<lambda>m. msg_Role m = ''system'') (Messages req)))
   \<and> convertToContentBlocks L (AString s) = [ContentBlock (Some s) None None None None]
   \<and> extractTextContent L (AString s) = s
   \<and> List.map_filter Text (convertToContentBlocks L (ASlice ps)) =
       List.map_filter
         (\<lambda>part. case part of
                    AMap m \<Rightarrow> (if assertString (map_of m ''type'') = Some ''text''
                                then assertString (map_of m ''text'') else None)
                  | _ \<Rightarrow> None) ps
   \<and> extractTextContent L (ASlice ps) =
       Join (List.map_filter
               (\<lambda>part. case part of
                          AMap m \<Rightarrow> assertString (map_of m ''text'')
                        | _ \<Rightarrow> None) ps) [CHR 0x0A]
   \<and> ((\<forall>s. c \<noteq> AString s) \<and> (\<forall>ps. c \<noteq> ASlice ps) \<longrightarrow>
        convertToContentBlocks L c = [ContentBlock (Some (Sprintv L c)) None None None None]
        \<and> extractTextContent L c = Sprintv L c)
   \<and> (let blocks = (case out_Message (Output resp) of None \<Rightarrow> [] | Some m \<Rightarrow> cm_Content m);
           text = concat (List.map_filter Text blocks)
       in \<exists>choice.
            resp_Choices (TranslateConverseToOpenAI L resp model rid) = [choice]
            \<and> msg_Content (ch_Message choice) = (if text = '''' then ANil else AString text)
            \<and> msg_ToolCalls (ch_Message choice) =
                map (\<lambda>tu. \<lparr>tc_ID = ToolUseId tu, tc_Type = ''function'',
                            tc_Function = \<lparr>fc_Name = Name tu,
                              fc_Arguments = Marshal L (gomap_any (Input tu))\<rparr>\<rparr>)
                  (List.map_filter ToolUse blocks))"
proof -
  have a: "convertToContentBlocks L (AString s) = [ContentBlock (Some s) None None None None]"
    by (simp add: convertToContentBlocks_def TextBlock_def)
  have e: "extractTextContent L (AString s) = s"
    by (simp add: extractTextContent_def)
  have j: "extractTextContent L (ASlice ps) =
       Join (List.map_filter
               (\<lambda>part. case part of
                          AMap m \<Rightarrow> assertString (map_of m ''text'')
                        | _ \<Rightarrow> None) ps) [CHR 0x0A]"
    by (simp add: extractTextContent_def)
  have t: "toolCallOf L = (\<lambda>tu. \<lparr>tc_ID = ToolUseId tu, tc_Type = ''function'',
                            tc_Function = \<lparr>fc_Name = Name tu,
                              fc_Arguments = Marshal L (gomap_any (Input tu))\<rparr>\<rparr>)"
    by (rule ext) (simp add: toolCallOf_def)
  show ?thesis
    using a e j TranslateOpenAIToConverseAPI_messages [of L req providerReq modelID]
      TranslateOpenAIToConverseAPI_system [of L req providerReq modelID]
      convertToContentBlocks_array_text [of L ps]
      other_content [of c L]
      TranslateConverseToOpenAI_message [of L resp model rid]
    by (simp add: Let_def t)
qed

theorem converse_text_and_tool_calls_witness:
  "\<exists>providerReq modelID choice.
     TranslateOpenAIToConverseAPI stubLib helloRequest = Inr (providerReq, modelID)
     \<and> cr_Messages (Body providerReq) =
         [\<lparr>cm_Role = ''user'',
           cm_Content = [ContentBlock (Some ''hi'') None None None None]\<rparr>]
     \<and> cr_System (Body providerReq) = []
     \<and> (\<forall>s. ANil \<noteq> AString s) \<and> (\<forall>ps. ANil \<noteq> ASlice ps)
     \<and> convertToContentBlocks stubLib ANil
         = [ContentBlock (Some ''<value>'') None None None None]
     \<and> resp_Choices (TranslateConverseToOpenAI stubLib toolUseResponse ''claude-3-sonnet'' ''id'')
         = [choice]
     \<and> msg_Content (ch_Message choice) = AString ''Let me check. Done.''
     \<and> map tc_ID (msg_ToolCalls (ch_Message choice)) = [''tooluse_1'']
     \<and> map (\<lambda>tc. fc_Name (tc_Function tc)) (msg_ToolCalls (ch_Message choice))
         = [''get_weather'']"
proof -
  note g = GetBedrockModelID_claude_3_sonnet
  obtain providerReq modelID where
    t: "TranslateOpenAIToConverseAPI stubLib helloRequest = Inr (providerReq, modelID)"
    by (simp add: TranslateOpenAIToConverseAPI_def helloRequest_def g converseMessagesLoop_eq)
  have c: "convertToContentBlocks stubLib (AString ''hi'')
             = [ContentBlock (Some ''hi'') None None None None]"
    by (simp add: convertToContentBlocks_def TextBlock_def)
  note T = converse_text_and_tool_calls
         [of stubLib helloRequest providerReq modelID "''hi''" "[]" ANil toolUseResponse
             "''claude-3-sonnet''" "''id''"]
  from T t have m: "cr_Messages (Body providerReq) =
         [\<lparr>cm_Role = ''user'',
           cm_Content = [ContentBlock (Some ''hi'') None None None None]\<rparr>]"
      and sy: "cr_System (Body providerReq) = []"
    by (simp_all add: helloRequest_def c)
  from T have n: "convertToContentBlocks stubLib ANil
         = [ContentBlock (Some ''<value>'') None None None None]"
    by (simp add: stubLib_def)
  from T obtain choice where
    ch: "resp_Choices (TranslateConverseToOpenAI stubLib toolUseResponse ''claude-3-sonnet'' ''id'')
           = [choice]"
      "msg_Content (ch_Message choice) = AString ''Let me check. Done.''"
      "msg_ToolCalls (ch_Message choice) =
         [\<lparr>tc_ID = ''tooluse_1'', tc_Type = ''function'',
           tc_Function = \<lparr>fc_Name = ''get_weather'',
             fc_Arguments = Marshal stubLib (AMap [(''city'', AString ''Paris'')])\<rparr>\<rparr>]"
    by (auto simp: Let_def toolUseResponse_def List.map_filter_simps gomap_any_def)
  from t m sy n ch show ?thesis by simp
qed

text \<open>
  The claim C7 as stated fails: text content is not preserved for every request. In the
  translation of a request with a system message, a user message and a tool message
  holding the text \<open>42\<close>, the tool message is gone: \<open>42\<close> is in no message and in no
  system block of the Converse request.
\<close>

theorem converse_text_counterexample:
  "Messages toolResultRequest =
     [\<lparr>msg_Role = ''system'', msg_Content = AString ''Be brief.'', msg_ToolCalls = []\<rparr>,
      \<lparr>msg_Role = ''user'', msg_Content = AString ''What is 6 times 7?'', msg_ToolCalls = []\<rparr>,
      \<lparr>msg_Role = ''tool'', msg_Content = AString ''42'', msg_ToolCalls = []\<rparr>]
   \<and> TranslateOpenAIToConverseAPI stubLib toolResultRequest =
       Inr (\<lparr>Method = ''POST'',
             Path = ''/model/anthropic.claude-3-sonnet-20240229-v1:0/converse'',
             Headers = [(''Content-Type'', ''application/json''),
                        (''Accept'', ''application/json'')],
             Body = \<lparr>cr_Messages =
                       [\<lparr>cm_Role = ''user'',
                         cm_Content = [ContentBlock (Some ''What is 6 times 7?'')
                                         None None None None]\<rparr>],
                     cr_System = [\<lparr>sys_Text = ''Be brief.''\<rparr>],
                     cr_InferenceConfig = Some
                       \<lparr>ic_MaxTokens = None, ic_Temperature = None, ic_TopP = None,
                        ic_StopSequences = []\<rparr>,
                     cr_ToolConfig = None,
                     cr_AdditionalModelRequestFields = None\<rparr>\<rparr>,
            ''anthropic.claude-3-sonnet-20240229-v1:0'')"
  by (simp add: toolResultRequest_def helloRequest_def TranslateOpenAIToConverseAPI_def
      GetBedrockModelID_claude_3_sonnet convertToContentBlocks_def TextBlock_def
      extractTextContent_def)

section \<open>Fallback routing\<close>












section \<open>Storage paths\<close>

lemma SplitN_length: "length (SplitN s sep n) \<le> n"
  by (induction s sep n rule: SplitN.induct) auto

lemma SplitN_no_sep: "sep \<notin> set a \<Longrightarrow> SplitN a sep (Suc n) = [a]"
  by (cases n) simp_all

lemma SplitN_sep:
  assumes "sep \<notin> set a"
  shows "SplitN (a @ sep # rest) sep (Suc (Suc n)) = a # SplitN rest sep (Suc n)"
proof -
  have "takeWhile (\<lambda>c. c \<noteq> sep) (a @ sep # rest) = a"
    using assms by (induction a) auto
  moreover have "dropWhile (\<lambda>c. c \<noteq> sep) (a @ sep # rest) = sep # rest"
    using assms by (induction a) auto
  ultimately show ?thesis by simp
qed

lemma TrimPrefix_append [simp]: "TrimPrefix (p @ s) p = s"
  by (simp add: TrimPrefix_def)

lemma five: "(5::nat) = Suc (Suc (Suc (Suc (Suc 0))))" by simp

lemma storagePath_without_key:
  assumes "CHR ''/'' \<notin> set providerName" and "CHR ''/'' \<notin> set env"
    and "CHR ''/'' \<notin> set operation" and "CHR ''/'' \<notin> set bucket"
  shows "storagePath (''/-'' @ providerName @ ''/'' @ env @ ''/'' @ operation @ ''/'' @ bucket)
           = Some (providerName, operation, bucket, '''')"
proof -
  have s: "SplitN (providerName @ CHR ''/'' # env @ CHR ''/'' # operation @ CHR ''/'' # bucket)
          CHR ''/'' 5
        = [providerName, env, operation, bucket]"
    unfolding five using assms by (simp add: SplitN_sep SplitN_no_sep del: SplitN.simps)
  have t: "TrimPrefix (''/-'' @ providerName @ ''/'' @ env @ ''/'' @ operation @ ''/'' @ bucket) ''/-''
         = providerName @ CHR ''/'' # env @ CHR ''/'' # operation @ CHR ''/'' # bucket"
    using TrimPrefix_append [of "''/-''"] by simp
  show ?thesis
    unfolding storagePath_def t s by simp
qed

lemma storagePath_with_key:
  assumes "CHR ''/'' \<notin> set providerName" and "CHR ''/'' \<notin> set env"
    and "CHR ''/'' \<notin> set operation" and "CHR ''/'' \<notin> set bucket"
  shows "storagePath (''/-'' @ providerName @ ''/'' @ env @ ''/'' @ operation @ ''/'' @ bucket
                        @ ''/'' @ key)
           = Some (providerName, operation, bucket, key)"
proof -
  have s: "SplitN (providerName @ CHR ''/'' # env @ CHR ''/'' # operation @ CHR ''/'' # bucket
                  @ CHR ''/'' # key)
          CHR ''/'' 5
        = [providerName, env, operation, bucket, key]"
    unfolding five using assms by (simp add: SplitN_sep del: SplitN.simps) simp
  have t: "TrimPrefix (''/-'' @ providerName @ ''/'' @ env @ ''/'' @ operation @ ''/'' @ bucket
                        @ ''/'' @ key) ''/-''
         = providerName @ CHR ''/'' # env @ CHR ''/'' # operation @ CHR ''/'' # bucket
                  @ CHR ''/'' # key"
    using TrimPrefix_append [of "''/-''"] by simp
  show ?thesis
    unfolding storagePath_def t s by simp
qed

lemma drop3_of_4: "length xs = 4 \<Longrightarrow> drop 3 xs = [xs ! 3]"
  by (auto simp: numeral_eq_Suc length_Suc_conv)

lemma drop3_of_5: "length xs = 5 \<Longrightarrow> drop 3 xs = [xs ! 3, xs ! 4]"
  by (auto simp: numeral_eq_Suc length_Suc_conv)

lemma Handle_storagePath:
  "Handle L h r =
     (case storagePath (URL_Path r) of
        None \<Rightarrow> \<lparr>response = writeError 400 ''Invalid storage path format'', calls = []\<rparr>
      | Some (providerName, operation, bucket, key) \<Rightarrow>
          (case sh_providers h providerName of
             None \<Rightarrow>
               \<lparr>response = writeError 404
                   (''Storage provider '' @ Quote L providerName @ '' not found''),
                calls = []\<rparr>
           | Some provider \<Rightarrow>
               if \<not> CheckAccess (accessControl h) r bucket key operation
               then \<lparr>response = writeError 403 ''Access denied'', calls = []\<rparr>
               else dispatch L provider r operation bucket key))"
proof -
  let ?parts = "SplitN (TrimPrefix (URL_Path r) ''/-'') CHR ''/'' 5"
  show ?thesis
  proof (cases "length ?parts < 4")
    case True
    then show ?thesis by (simp add: Handle_def storagePath_def Let_def)
  next
    case False
    have le: "length ?parts \<le> 5" by (rule SplitN_length)
    from False le consider "length ?parts = 4" | "length ?parts = 5" by linarith
    then show ?thesis
    proof cases
      case 1
      with drop3_of_4 [OF 1] show ?thesis
        by (simp add: Handle_def storagePath_def Let_def split: option.splits)
    next
      case 2
      with drop3_of_5 [OF 2] show ?thesis
        by (simp add: Handle_def storagePath_def Let_def split: option.splits)
    qed
  qed
qed

section \<open>Access control of the storage handler\<close>

lemma CheckAccess_iff:
  "CheckAccess ac r bucket key operation \<longleftrightarrow>
     (AllowedBuckets ac = [] \<or> bucket \<in> set (AllowedBuckets ac))
     \<and> (\<forall>denied\<in>set (DeniedPrefixes ac).
           \<not> HasPrefix (''/'' @ key) denied \<and> \<not> HasPrefix key denied)"
  by (auto simp: CheckAccess_def list_ex_iff)

lemma CheckAccess_default_no_key:
  "CheckAccess NewDefaultAccessControl r bucket '''' operation"
  by (simp add: CheckAccess_def NewDefaultAccessControl_def HasPrefix_def)

lemma HasPrefix_slash: "HasPrefix key p \<Longrightarrow> HasPrefix (''/'' @ key) (''/'' @ p)"
  by (auto simp: HasPrefix_iff)

lemma writeError_403:
  "writeError 403 message =
     Reply \<lparr>status = 403, headers = [(''Content-Type'', ''application/json'')],
            body = JSONBody (JObject [(''error'',
                     JObject [(''code'', JInt 403), (''message'', JString message)])])\<rparr>"
  by (simp add: writeError_def)

lemma written_status_writeError:
  "100 \<le> code \<Longrightarrow> code \<le> 999 \<Longrightarrow> written_status (writeError code message) = Some code"
  by (simp add: writeError_def written_status_def)

lemma example_handler_s3: "sh_providers exampleHandler ''s3'' = Some exampleProvider"
  by (simp add: exampleHandler_def NewStorageHandler_def)

lemma example_handler_gcs: "sh_providers exampleHandler ''gcs'' = None"
  by (simp add: exampleHandler_def NewStorageHandler_def)

lemma example_handler_default: "accessControl exampleHandler = NewDefaultAccessControl"
  by (simp add: exampleHandler_def NewStorageHandler_def)

text \<open>
  C9, as amended. With the default access control, a request whose object key (the part
  of the path after the bucket) begins with \<open>secret/\<close> or \<open>private/\<close>, or whose first
  key segment begins with a dot, is answered 403 with the body
  \<open>{"error":{"code":403,"message":"Access denied"}}\<close> whatever the operation, provided
  its path names a registered provider; when the provider is not registered the answer
  is 404. In both cases no provider method is called.
\<close>

theorem default_access_control_denies:
  assumes "accessControl h = NewDefaultAccessControl"
    and "storagePath (URL_Path r) = Some (providerName, operation, bucket, key)"
    and "HasPrefix key ''secret/'' \<or> HasPrefix key ''private/'' \<or> HasPrefix key ''.''"
  shows "(sh_providers h providerName \<noteq> None \<longrightarrow>
            Handle L h r =
              \<lparr>response = Reply
                 \<lparr>status = 403, headers = [(''Content-Type'', ''application/json'')],
                  body = JSONBody (JObject [(''error'',
                    JObject [(''code'', JInt 403), (''message'', JString ''Access denied'')])])\<rparr>,
               calls = []\<rparr>)
       \<and> (sh_providers h providerName = None \<longrightarrow>
            written_status (response (Handle L h r)) = Some 404 \<and> calls (Handle L h r) = [])"
proof -
  from assms(3) have "HasPrefix (''/'' @ key) ''/secret/'' \<or> HasPrefix (''/'' @ key) ''/private/''
                      \<or> HasPrefix (''/'' @ key) ''/.''"
    using HasPrefix_slash [of key "''secret/''"] HasPrefix_slash [of key "''private/''"]
      HasPrefix_slash [of key "''.''"] by auto
  then have d: "\<not> CheckAccess (accessControl h) r bucket key operation"
    by (auto simp: CheckAccess_iff assms(1) NewDefaultAccessControl_def)
  have a: "Handle L h r =
              \<lparr>response = Reply
                 \<lparr>status = 403, headers = [(''Content-Type'', ''application/json'')],
                  body = JSONBody (JObject [(''error'',
                    JObject [(''code'', JInt 403), (''message'', JString ''Access denied'')])])\<rparr>,
               calls = []\<rparr>"
    if "sh_providers h providerName \<noteq> None"
    using that d assms(2) by (auto simp: Handle_storagePath writeError_403)
  have b: "written_status (response (Handle L h r)) = Some 404 \<and> calls (Handle L h r) = []"
    if "sh_providers h providerName = None"
    using that assms(2) by (simp add: Handle_storagePath written_status_writeError)
  from a b show ?thesis by blast
qed

theorem default_access_control_denies_witness:
  "accessControl exampleHandler = NewDefaultAccessControl
   \<and> storagePath ''/-s3/prod/get/rag-docs/secret/creds.json''
       = Some (''s3'', ''get'', ''rag-docs'', ''secret/creds.json'')
   \<and> HasPrefix ''secret/creds.json'' ''secret/''
   \<and> sh_providers exampleHandler ''s3'' \<noteq> None
   \<and> Handle stubLib exampleHandler (storageRequest ''/-s3/prod/get/rag-docs/secret/creds.json'' [])
       = \<lparr>response = Reply
            \<lparr>status = 403, headers = [(''Content-Type'', ''application/json'')],
             body = JSONBody (JObject [(''error'',
               JObject [(''code'', JInt 403), (''message'', JString ''Access denied'')])])\<rparr>,
          calls = []\<rparr>"
proof -
  have p: "storagePath (URL_Path (storageRequest ''/-s3/prod/get/rag-docs/secret/creds.json'' []))
             = Some (''s3'', ''get'', ''rag-docs'', ''secret/creds.json'')"
    using storagePath_with_key [of "''s3''" "''prod''" "''get''" "''rag-docs''" "''secret/creds.json''"]
    by (simp add: storageRequest_def)
  have k: "HasPrefix ''secret/creds.json'' ''secret/'' \<or> HasPrefix ''secret/creds.json'' ''private/''
           \<or> HasPrefix ''secret/creds.json'' ''.''"
    by (simp add: HasPrefix_def)
  from default_access_control_denies [OF example_handler_default p k, of stubLib]
    example_handler_default example_handler_s3 p k
  show ?thesis
    by (simp add: storageRequest_def HasPrefix_def)
qed

text \<open>
  The claim C9 as stated fails: on the handler with the default access control and the
  provider \<open>s3\<close> only, the request \<open>/-gcs/prod/get/rag-docs/secret/creds.json\<close>, whose key
  begins with \<open>secret/\<close>, is answered 404 and not 403, because the provider lookup comes
  before the access check.
\<close>

theorem default_access_control_counterexample:
  "accessControl exampleHandler = NewDefaultAccessControl
   \<and> storagePath ''/-gcs/prod/get/rag-docs/secret/creds.json''
       = Some (''gcs'', ''get'', ''rag-docs'', ''secret/creds.json'')
   \<and> written_status (response (Handle stubLib exampleHandler
         (storageRequest ''/-gcs/prod/get/rag-docs/secret/creds.json'' []))) = Some 404
   \<and> written_status (response (Handle stubLib exampleHandler
         (storageRequest ''/-gcs/prod/get/rag-docs/secret/creds.json'' []))) \<noteq> Some 403"
proof -
  have p: "storagePath (URL_Path (storageRequest ''/-gcs/prod/get/rag-docs/secret/creds.json'' []))
             = Some (''gcs'', ''get'', ''rag-docs'', ''secret/creds.json'')"
    using storagePath_with_key [of "''gcs''" "''prod''" "''get''" "''rag-docs''" "''secret/creds.json''"]
    by (simp add: storageRequest_def)
  have "written_status (response (Handle stubLib exampleHandler
          (storageRequest ''/-gcs/prod/get/rag-docs/secret/creds.json'' []))) = Some 404"
    using p example_handler_gcs by (simp add: Handle_storagePath written_status_writeError)
  with p example_handler_default show ?thesis by (simp add: storageRequest_def)
qed

text \<open>
  C6, as amended. For a request whose path has the four leading parts and no object key:
  when the provider is not registered the answer is 404, and when the access check denies
  the request it is 403, both without a provider call. Otherwise \<open>get\<close>, \<open>put\<close>,
  \<open>delete\<close>, \<open>head\<close> and \<open>presign\<close> are answered 400 without a provider call, while
  \<open>list\<close> calls the provider's \<open>ListObjects\<close> for the bucket and answers with its
  result.
\<close>

theorem missing_key:
  assumes "storagePath (URL_Path r) = Some (providerName, operation, bucket, '''')"
  shows "(sh_providers h providerName = None \<longrightarrow>
            written_status (response (Handle L h r)) = Some 404 \<and> calls (Handle L h r) = [])
       \<and> (\<forall>provider. sh_providers h providerName = Some provider \<longrightarrow>
            (\<not> CheckAccess (accessControl h) r bucket '''' operation \<longrightarrow>
               written_status (response (Handle L h r)) = Some 403 \<and> calls (Handle L h r) = [])
          \<and> (CheckAccess (accessControl h) r bucket '''' operation \<longrightarrow>
               (operation \<in> {''get'', ''put'', ''delete'', ''head'', ''presign''} \<longrightarrow>
                  written_status (response (Handle L h r)) = Some 400
                  \<and> calls (Handle L h r) = [])
             \<and> (operation = ''list'' \<longrightarrow>
                  (\<exists>req. list_Bucket req = bucket
                     \<and> calls (Handle L h r) = [CallListObjects req]
                     \<and> response (Handle L h r) =
                         (case ListObjects provider req of
                            Inl err \<Rightarrow> handleStorageError err
                          | Inr resp \<Rightarrow>
                              jsonOK (JObject [(''common_prefixes'',
                                      JMarshal (GoStrings (lr_CommonPrefixes resp))),
                                   (''is_truncated'', JBool (lr_IsTruncated resp)),
                                   (''next_continuation_token'',
                                      JString (lr_NextContinuationToken resp)),
                                   (''objects'',
                                      JMarshal (GoObjects (lr_Objects resp)))]))))))"
proof -
  have n: "written_status (response (Handle L h r)) = Some 404 \<and> calls (Handle L h r) = []"
    if "sh_providers h providerName = None"
    using that assms by (simp add: Handle_storagePath written_status_writeError)
  have d: "written_status (response (Handle L h r)) = Some 403 \<and> calls (Handle L h r) = []"
    if "sh_providers h providerName = Some provider"
       "\<not> CheckAccess (accessControl h) r bucket '''' operation" for provider
    using that assms by (simp add: Handle_storagePath written_status_writeError)
  have h: "Handle L h r = dispatch L provider r operation bucket ''''"
    if "sh_providers h providerName = Some provider"
       "CheckAccess (accessControl h) r bucket '''' operation" for provider
    using that assms by (simp add: Handle_storagePath)
  have a: "written_status (response (Handle L h r)) = Some 400 \<and> calls (Handle L h r) = []"
    if "sh_providers h providerName = Some provider"
       "CheckAccess (accessControl h) r bucket '''' operation"
       "operation \<in> {''get'', ''put'', ''delete'', ''head'', ''presign''}" for provider
    using that(3)
    by (auto simp: h [OF that(1,2)] dispatch_def caseGet_def casePut_def caseDelete_def
        caseHead_def casePresign_def written_status_writeError)
  define listed where
    "listed = (\<lambda>provider :: StorageProvider. \<exists>req. list_Bucket req = bucket
             \<and> calls (Handle L h r) = [CallListObjects req]
             \<and> response (Handle L h r) =
                 (case ListObjects provider req of
                    Inl err \<Rightarrow> handleStorageError err
                  | Inr resp \<Rightarrow>
                      jsonOK (JObject [(''common_prefixes'',
                              JMarshal (GoStrings (lr_CommonPrefixes resp))),
                           (''is_truncated'', JBool (lr_IsTruncated resp)),
                           (''next_continuation_token'',
                              JString (lr_NextContinuationToken resp)),
                           (''objects'',
                              JMarshal (GoObjects (lr_Objects resp)))])))"
  have b: "listed provider"
    if "sh_providers h providerName = Some provider"
       "CheckAccess (accessControl h) r bucket [] operation"
       "operation = ''list''" for provider
    unfolding listed_def using that(3)
    by (simp add: h [OF that(1,2)] dispatch_def caseList_def Let_def)
  show ?thesis
    apply (intro conjI impI allI)
    subgoal by (rule n [THEN conjunct1])
    subgoal by (rule n [THEN conjunct2])
    subgoal by (rule d [THEN conjunct1])
    subgoal by (rule d [THEN conjunct2])
    subgoal by (rule a [THEN conjunct1])
    subgoal by (rule a [THEN conjunct2])
    subgoal by (rule b [unfolded listed_def])
    done
qed

theorem missing_key_witness:
  "storagePath ''/-s3/prod/get/rag-docs'' = Some (''s3'', ''get'', ''rag-docs'', '''')
   \<and> sh_providers exampleHandler ''s3'' = Some exampleProvider
   \<and> CheckAccess (accessControl exampleHandler) (storageRequest ''/-s3/prod/get/rag-docs'' [])
        ''rag-docs'' '''' ''get''
   \<and> written_status (response (Handle stubLib exampleHandler
         (storageRequest ''/-s3/prod/get/rag-docs'' []))) = Some 400
   \<and> calls (Handle stubLib exampleHandler (storageRequest ''/-s3/prod/get/rag-docs'' [])) = []
   \<and> storagePath ''/-s3/prod/list/rag-docs'' = Some (''s3'', ''list'', ''rag-docs'', '''')
   \<and> calls (Handle stubLib exampleHandler (storageRequest ''/-s3/prod/list/rag-docs'' []))
       = [CallListObjects \<lparr>list_Bucket = ''rag-docs'', list_Prefix = '''', list_Delimiter = '''',
            list_MaxKeys = 1000, list_StartAfter = '''', list_ContinuationToken = ''''\<rparr>]
   \<and> written_status (response (Handle stubLib exampleHandler
         (storageRequest ''/-s3/prod/list/rag-docs'' []))) = Some 200"
proof -
  note s = example_handler_s3
  have p: "storagePath (URL_Path (storageRequest ''/-s3/prod/get/rag-docs'' []))
             = Some (''s3'', ''get'', ''rag-docs'', '''')"
    using storagePath_without_key [of "''s3''" "''prod''" "''get''" "''rag-docs''"]
    by (simp add: storageRequest_def)
  have c: "CheckAccess (accessControl exampleHandler) (storageRequest ''/-s3/prod/get/rag-docs'' [])
             ''rag-docs'' '''' ''get''"
    by (simp add: example_handler_default CheckAccess_default_no_key)
  have p': "storagePath (URL_Path (storageRequest ''/-s3/prod/list/rag-docs'' []))
             = Some (''s3'', ''list'', ''rag-docs'', '''')"
    using storagePath_without_key [of "''s3''" "''prod''" "''list''" "''rag-docs''"]
    by (simp add: storageRequest_def)
  have c': "CheckAccess (accessControl exampleHandler) (storageRequest ''/-s3/prod/list/rag-docs'' [])
             ''rag-docs'' '''' ''list''"
    by (simp add: example_handler_default CheckAccess_default_no_key)
  from missing_key [OF p, of exampleHandler stubLib] s c
  have g: "written_status (response (Handle stubLib exampleHandler
                     (storageRequest ''/-s3/prod/get/rag-docs'' []))) = Some 400
           \<and> calls (Handle stubLib exampleHandler (storageRequest ''/-s3/prod/get/rag-docs'' [])) = []"
    by simp
  from missing_key [OF p', of exampleHandler stubLib] s c' obtain req where
    l: "list_Bucket req = ''rag-docs''"
       "calls (Handle stubLib exampleHandler (storageRequest ''/-s3/prod/list/rag-docs'' []))
          = [CallListObjects req]"
       "response (Handle stubLib exampleHandler (storageRequest ''/-s3/prod/list/rag-docs'' []))
          = (case ListObjects exampleProvider req of
               Inl err \<Rightarrow> handleStorageError err
             | Inr resp \<Rightarrow>
                 jsonOK (JObject [(''common_prefixes'', JMarshal (GoStrings (lr_CommonPrefixes resp))),
                      (''is_truncated'', JBool (lr_IsTruncated resp)),
                      (''next_continuation_token'', JString (lr_NextContinuationToken resp)),
                      (''objects'', JMarshal (GoObjects (lr_Objects resp)))]))"
    by auto
  have st: "written_status (response (Handle stubLib exampleHandler
                      (storageRequest ''/-s3/prod/list/rag-docs'' []))) = Some 200"
    by (simp add: l(3) exampleProvider_def written_status_def jsonOK_def)
  have cl: "calls (Handle stubLib exampleHandler (storageRequest ''/-s3/prod/list/rag-docs'' []))
       = [CallListObjects \<lparr>list_Bucket = ''rag-docs'', list_Prefix = '''', list_Delimiter = '''',
            list_MaxKeys = 1000, list_StartAfter = '''', list_ContinuationToken = ''''\<rparr>]"
    using p' s c'
    by (simp add: Handle_storagePath dispatch_def caseList_def Let_def storageRequest_def Get_def)
  from p p' s c g st cl show ?thesis
    by (simp add: storageRequest_def)
qed

text \<open>
  The claim C6 as stated fails: on the handler with the provider \<open>s3\<close> only, the requests
  \<open>/-gcs/prod/get/rag-docs\<close> and \<open>/-gcs/prod/list/rag-docs\<close>, which name no key, are both
  answered 404 without a provider call: \<open>get\<close> is not answered 400 and \<open>list\<close> does not
  proceed.
\<close>

theorem missing_key_counterexample:
  "storagePath ''/-gcs/prod/get/rag-docs'' = Some (''gcs'', ''get'', ''rag-docs'', '''')
   \<and> written_status (response (Handle stubLib exampleHandler
         (storageRequest ''/-gcs/prod/get/rag-docs'' []))) = Some 404
   \<and> storagePath ''/-gcs/prod/list/rag-docs'' = Some (''gcs'', ''list'', ''rag-docs'', '''')
   \<and> written_status (response (Handle stubLib exampleHandler
         (storageRequest ''/-gcs/prod/list/rag-docs'' []))) = Some 404
   \<and> calls (Handle stubLib exampleHandler (storageRequest ''/-gcs/prod/list/rag-docs'' [])) = []"
proof -
  have p: "storagePath (URL_Path (storageRequest ''/-gcs/prod/get/rag-docs'' []))
             = Some (''gcs'', ''get'', ''rag-docs'', '''')"
    using storagePath_without_key [of "''gcs''" "''prod''" "''get''" "''rag-docs''"]
    by (simp add: storageRequest_def)
  have p': "storagePath (URL_Path (storageRequest ''/-gcs/prod/list/rag-docs'' []))
             = Some (''gcs'', ''list'', ''rag-docs'', '''')"
    using storagePath_without_key [of "''gcs''" "''prod''" "''list''" "''rag-docs''"]
    by (simp add: storageRequest_def)
  have a: "written_status (response (Handle stubLib exampleHandler
             (storageRequest ''/-gcs/prod/get/rag-docs'' []))) = Some 404"
    using p example_handler_gcs by (simp add: Handle_storagePath written_status_writeError)
  have b: "written_status (response (Handle stubLib exampleHandler
             (storageRequest ''/-gcs/prod/list/rag-docs'' []))) = Some 404
           \<and> calls (Handle stubLib exampleHandler (storageRequest ''/-gcs/prod/list/rag-docs'' [])) = []"
    using p' example_handler_gcs by (simp add: Handle_storagePath written_status_writeError)
  from p p' a b show ?thesis by (simp add: storageRequest_def)
qed

text \<open>
  C3, as amended. For a request with a well-formed path that names a registered provider,
  the access check before dispatch answers 403, and no provider method is called, when a
  bucket allowlist is configured and the bucket is not in it, or when the key, with or
  without a slash in front, starts with a denied prefix. The operation takes no part in
  the check: every other request goes on to the dispatch, whatever its operation.
\<close>

theorem access_check_before_dispatch:
  assumes "storagePath (URL_Path r) = Some (providerName, operation, bucket, key)"
    and "sh_providers h providerName = Some provider"
  shows "((AllowedBuckets (accessControl h) \<noteq> [] \<and> bucket \<notin> set (AllowedBuckets (accessControl h)))
          \<or> (\<exists>denied\<in>set (DeniedPrefixes (accessControl h)).
                HasPrefix (''/'' @ key) denied \<or> HasPrefix key denied)
          \<longrightarrow> Handle L h r = \<lparr>response = writeError 403 ''Access denied'', calls = []\<rparr>
              \<and> written_status (response (Handle L h r)) = Some 403)
       \<and> (\<not> ((AllowedBuckets (accessControl h) \<noteq> []
                \<and> bucket \<notin> set (AllowedBuckets (accessControl h)))
               \<or> (\<exists>denied\<in>set (DeniedPrefixes (accessControl h)).
                     HasPrefix (''/'' @ key) denied \<or> HasPrefix key denied))
          \<longrightarrow> Handle L h r = dispatch L provider r operation bucket key)"
  using assms
  by (auto simp: Handle_storagePath CheckAccess_iff written_status_writeError)

theorem access_check_before_dispatch_witness:
  "storagePath ''/-s3/prod/delete/rag-docs/private/key.pem''
     = Some (''s3'', ''delete'', ''rag-docs'', ''private/key.pem'')
   \<and> sh_providers exampleHandler ''s3'' = Some exampleProvider
   \<and> HasPrefix (''/'' @ ''private/key.pem'') ''/private/''
   \<and> ''/private/'' \<in> set (DeniedPrefixes (accessControl exampleHandler))
   \<and> Handle stubLib exampleHandler (storageRequest ''/-s3/prod/delete/rag-docs/private/key.pem'' [])
       = \<lparr>response = writeError 403 ''Access denied'', calls = []\<rparr>"
proof -
  have p: "storagePath (URL_Path (storageRequest ''/-s3/prod/delete/rag-docs/private/key.pem'' []))
             = Some (''s3'', ''delete'', ''rag-docs'', ''private/key.pem'')"
    using storagePath_with_key [of "''s3''" "''prod''" "''delete''" "''rag-docs''" "''private/key.pem''"]
    by (simp add: storageRequest_def)
  have s: "sh_providers exampleHandler ''s3'' = Some exampleProvider"
    by (simp add: exampleHandler_def NewStorageHandler_def)
  have d: "''/private/'' \<in> set (DeniedPrefixes (accessControl exampleHandler))"
    by (simp add: exampleHandler_def NewStorageHandler_def NewDefaultAccessControl_def)
  have k: "HasPrefix (''/'' @ ''private/key.pem'') ''/private/''"
    by (simp add: HasPrefix_def)
  from d k have "\<exists>denied\<in>set (DeniedPrefixes (accessControl exampleHandler)).
                   HasPrefix (''/'' @ ''private/key.pem'') denied
                   \<or> HasPrefix ''private/key.pem'' denied"
    by blast
  with access_check_before_dispatch [OF p s, of stubLib] p s d k show ?thesis
    by (simp add: storageRequest_def)
qed

text \<open>
  The claim C3 as stated fails: an operation outside every allowlist, here \<open>purge\<close>, is
  not denied by the access check; the request reaches the dispatch and is answered 400,
  not 403.
\<close>

theorem operation_allowlist_counterexample:
  "CheckAccess (accessControl exampleHandler) (storageRequest ''/-s3/prod/purge/rag-docs/a.txt'' [])
        ''rag-docs'' ''a.txt'' ''purge''
   \<and> written_status (response (Handle stubLib exampleHandler
                 (storageRequest ''/-s3/prod/purge/rag-docs/a.txt'' []))) = Some 400
   \<and> written_status (response (Handle stubLib exampleHandler
                 (storageRequest ''/-s3/prod/purge/rag-docs/a.txt'' []))) \<noteq> Some 403"
proof -
  have p: "storagePath (URL_Path (storageRequest ''/-s3/prod/purge/rag-docs/a.txt'' []))
             = Some (''s3'', ''purge'', ''rag-docs'', ''a.txt'')"
    using storagePath_with_key [of "''s3''" "''prod''" "''purge''" "''rag-docs''" "''a.txt''"]
    by (simp add: storageRequest_def)
  have s: "sh_providers exampleHandler ''s3'' = Some exampleProvider"
    by (simp add: exampleHandler_def NewStorageHandler_def)
  have c: "CheckAccess (accessControl exampleHandler)
             (storageRequest ''/-s3/prod/purge/rag-docs/a.txt'' []) ''rag-docs'' ''a.txt'' ''purge''"
    by (simp add: exampleHandler_def NewStorageHandler_def NewDefaultAccessControl_def
        CheckAccess_def HasPrefix_def)
  have "written_status (response (Handle stubLib exampleHandler
                 (storageRequest ''/-s3/prod/purge/rag-docs/a.txt'' []))) = Some 400"
    using p s c by (simp add: Handle_storagePath dispatch_def written_status_writeError)
  with c show ?thesis by simp
qed

section \<open>Presigned URLs\<close>

lemma wrap64_in_range:
  assumes "- 9223372036 \<le> n" and "n \<le> 9223372036"
  shows "wrap64 (n * Second) = n * Second"
proof -
  have "0 \<le> n * 1000000000 + 2 ^ 63" using assms by simp
  moreover have "n * 1000000000 + 2 ^ 63 < 2 ^ 64" using assms by simp
  ultimately have "(n * 1000000000 + 2 ^ 63) mod 2 ^ 64 = n * 1000000000 + 2 ^ 63"
    by (rule mod_pos_pos_trivial)
  then show ?thesis by (simp add: wrap64_def Second_def)
qed

lemma Atoi_3600: "Atoi ''3600'' = Some 3600"
  by (simp add: Atoi_def isDigit_def)

lemma example_presign_dispatch:
  "Handle stubLib exampleHandler (storageRequest ''/-s3/prod/presign/rag-docs/policies/p.pdf'' q)
     = casePresign exampleProvider
         (storageRequest ''/-s3/prod/presign/rag-docs/policies/p.pdf'' q)
         ''rag-docs'' ''policies/p.pdf''"
proof -
  have p: "storagePath (URL_Path (storageRequest ''/-s3/prod/presign/rag-docs/policies/p.pdf'' q))
             = Some (''s3'', ''presign'', ''rag-docs'', ''policies/p.pdf'')"
    using storagePath_with_key [of "''s3''" "''prod''" "''presign''" "''rag-docs''" "''policies/p.pdf''"]
    by (simp add: storageRequest_def)
  have s: "sh_providers exampleHandler ''s3'' = Some exampleProvider"
    by (simp add: exampleHandler_def NewStorageHandler_def)
  have c: "CheckAccess (accessControl exampleHandler)
             (storageRequest ''/-s3/prod/presign/rag-docs/policies/p.pdf'' q)
             ''rag-docs'' ''policies/p.pdf'' ''presign''"
    by (simp add: exampleHandler_def NewStorageHandler_def NewDefaultAccessControl_def
        CheckAccess_def HasPrefix_def)
  from p s c show ?thesis by (simp add: Handle_storagePath dispatch_def)
qed

lemma example_presign_outcome:
  assumes "Atoi ttl = Some n" and "ttl \<noteq> ''''"
  shows "casePresign exampleProvider
           (storageRequest ''/-s3/prod/presign/rag-docs/policies/p.pdf'' [(''ttl'', ttl)])
           ''rag-docs'' ''policies/p.pdf''
         = \<lparr>response = jsonOK (encodePresignedURL
               \<lparr>URL = ''https://rag-docs.s3.amazonaws.com/policies/p.pdf'',
                ExpiresIn = wrap64 (n * Second) div Second,
                ExpiresAt = ''2025-01-15T13:00:00Z'',
                Operation = ''GetObject'',
                Bucket = ''rag-docs'',
                Key = ''policies/p.pdf''\<rparr>),
            calls = [CallGeneratePresignedURL
               \<lparr>ps_Bucket = ''rag-docs'', ps_Key = ''policies/p.pdf'',
                ps_Operation = ''GetObject'', ps_ExpiresIn = wrap64 (n * Second),
                ps_ContentType = ''''\<rparr>]\<rparr>"
  using assms
  by (simp add: casePresign_def storageRequest_def Get_def Let_def exampleProvider_def
      PresignOperationGet_def)



text \<open>
  C2, as amended. For a presign request whose path names a registered provider, that has
  passed the access check and has a key: an absent or empty \<open>ttl\<close> stands for 3600
  seconds; a \<open>ttl\<close> that \<open>strconv.Atoi\<close> rejects (not an optionally signed decimal
  integer, or outside the signed 64-bit range) is answered 400 without a provider call;
  every other \<open>ttl\<close> \<open>n\<close>, zero and negative values included, is handed to the
  provider as the duration of \<open>n\<close> times \<open>10^9\<close> nanoseconds computed in 64 bits, which
  is exactly \<open>n\<close> seconds when \<open>n\<close> lies between -9223372036 and 9223372036 and wraps
  around beyond. The handler applies no maximum: nothing is clamped.
\<close>

theorem presign_ttl_passed_through:
  assumes "storagePath (URL_Path r) = Some (providerName, ''presign'', bucket, key)"
    and "sh_providers h providerName = Some provider"
    and "CheckAccess (accessControl h) r bucket key ''presign''"
    and "key \<noteq> ''''"
  shows "(Get (URL_Query r) ''ttl'' = '''' \<longrightarrow>
            (\<exists>req. calls (Handle L h r) = [CallGeneratePresignedURL req]
                 \<and> ps_Bucket req = bucket \<and> ps_Key req = key
                 \<and> ps_ExpiresIn req = 3600 * Second))
       \<and> (Get (URL_Query r) ''ttl'' \<noteq> '''' \<and> Atoi (Get (URL_Query r) ''ttl'') = None \<longrightarrow>
            Handle L h r = \<lparr>response = writeError 400 ''Invalid TTL value'', calls = []\<rparr>
            \<and> written_status (response (Handle L h r)) = Some 400)
       \<and> (\<forall>n. Get (URL_Query r) ''ttl'' \<noteq> '''' \<and> Atoi (Get (URL_Query r) ''ttl'') = Some n \<longrightarrow>
            (\<exists>req. calls (Handle L h r) = [CallGeneratePresignedURL req]
                 \<and> ps_Bucket req = bucket \<and> ps_Key req = key
                 \<and> ps_ExpiresIn req = wrap64 (n * Second)
                 \<and> (- 9223372036 \<le> n \<and> n \<le> 9223372036 \<longrightarrow> ps_ExpiresIn req = n * Second)))"
proof -
  have h: "Handle L h r = casePresign provider r bucket key"
    using assms(1-3) by (simp add: Handle_storagePath dispatch_def)
  have w: "wrap64 (3600 * Second) = 3600 * Second"
    by (rule wrap64_in_range) simp_all
  have a: "\<exists>req. calls (Handle L h r) = [CallGeneratePresignedURL req]
                 \<and> ps_Bucket req = bucket \<and> ps_Key req = key
                 \<and> ps_ExpiresIn req = 3600 * Second"
    if "Get (URL_Query r) ''ttl'' = ''''"
    using that assms(4) by (simp add: h casePresign_def Let_def Atoi_3600 w)
  have b: "Handle L h r = \<lparr>response = writeError 400 ''Invalid TTL value'', calls = []\<rparr>
           \<and> written_status (response (Handle L h r)) = Some 400"
    if "Get (URL_Query r) ''ttl'' \<noteq> ''''" "Atoi (Get (URL_Query r) ''ttl'') = None"
    using that assms(4) by (simp add: h casePresign_def Let_def written_status_writeError)
  have c: "\<exists>req. calls (Handle L h r) = [CallGeneratePresignedURL req]
                 \<and> ps_Bucket req = bucket \<and> ps_Key req = key
                 \<and> ps_ExpiresIn req = wrap64 (n * Second)
                 \<and> (- 9223372036 \<le> n \<and> n \<le> 9223372036 \<longrightarrow> ps_ExpiresIn req = n * Second)"
    if "Get (URL_Query r) ''ttl'' \<noteq> ''''" "Atoi (Get (URL_Query r) ''ttl'') = Some n" for n
    using that assms(4) wrap64_in_range [of n]
    by (simp add: h casePresign_def Let_def)
  show ?thesis
    apply (intro conjI impI allI)
    subgoal by (rule a)
    subgoal by (rule b [THEN conjunct1]) simp_all
    subgoal by (rule b [THEN conjunct2]) simp_all
    subgoal for n by (rule c) simp_all
    done
qed

theorem presign_ttl_passed_through_witness:
  "storagePath ''/-s3/prod/presign/rag-docs/policies/p.pdf''
     = Some (''s3'', ''presign'', ''rag-docs'', ''policies/p.pdf'')
   \<and> Atoi ''86401'' = Some 86401
   \<and> (\<exists>req. calls (Handle stubLib exampleHandler
               (storageRequest ''/-s3/prod/presign/rag-docs/policies/p.pdf'' [(''ttl'', ''86401'')]))
             = [CallGeneratePresignedURL req]
           \<and> ps_ExpiresIn req = 86401 * Second)
   \<and> Atoi ''9223372037'' = Some 9223372037
   \<and> (\<exists>req. calls (Handle stubLib exampleHandler
               (storageRequest ''/-s3/prod/presign/rag-docs/policies/p.pdf''
                  [(''ttl'', ''9223372037'')]))
             = [CallGeneratePresignedURL req]
           \<and> ps_ExpiresIn req = - 9223372036709551616)
   \<and> Atoi ''9223372036854775808'' = None
   \<and> written_status (response (Handle stubLib exampleHandler
         (storageRequest ''/-s3/prod/presign/rag-docs/policies/p.pdf''
            [(''ttl'', ''9223372036854775808'')]))) = Some 400
   \<and> Atoi ''1h'' = None
   \<and> written_status (response (Handle stubLib exampleHandler
         (storageRequest ''/-s3/prod/presign/rag-docs/policies/p.pdf'' [(''ttl'', ''1h'')])))
       = Some 400"
proof -
  let ?p = "''/-s3/prod/presign/rag-docs/policies/p.pdf''"
  have p: "storagePath (URL_Path (storageRequest ?p q))
             = Some (''s3'', ''presign'', ''rag-docs'', ''policies/p.pdf'')" for q
    using storagePath_with_key [of "''s3''" "''prod''" "''presign''" "''rag-docs''" "''policies/p.pdf''"]
    by (simp add: storageRequest_def)
  note s = example_handler_s3
  have c: "CheckAccess (accessControl exampleHandler) (storageRequest ?p q)
             ''rag-docs'' ''policies/p.pdf'' ''presign''" for q
    by (simp add: example_handler_default NewDefaultAccessControl_def
        CheckAccess_def HasPrefix_def)
  have k: "''policies/p.pdf'' \<noteq> ''''" by simp
  have q: "Get (URL_Query (storageRequest ?p [(''ttl'', t)])) ''ttl'' = t" for t
    by (simp add: storageRequest_def Get_def)
  have a1: "Atoi ''86401'' = Some 86401"
    by (simp add: Atoi_def isDigit_def)
  have a2: "Atoi ''9223372037'' = Some 9223372037"
    by (simp add: Atoi_def isDigit_def)
  have a3: "Atoi ''9223372036854775808'' = None"
    by (simp add: Atoi_def isDigit_def)
  have a4: "Atoi ''1h'' = None"
    by (simp add: Atoi_def isDigit_def)
  have w2: "wrap64 (9223372037 * Second) = - 9223372036709551616"
    by (simp add: wrap64_def Second_def)
  note T = presign_ttl_passed_through [OF p s c k, of _ stubLib]
  from T [of "[(''ttl'', ''86401'')]"] a1
  have r1: "\<exists>req. calls (Handle stubLib exampleHandler (storageRequest ?p [(''ttl'', ''86401'')]))
             = [CallGeneratePresignedURL req] \<and> ps_ExpiresIn req = 86401 * Second"
    by (auto simp: q)
  from T [of "[(''ttl'', ''9223372037'')]"] a2 w2
  have r2: "\<exists>req. calls (Handle stubLib exampleHandler
                     (storageRequest ?p [(''ttl'', ''9223372037'')]))
             = [CallGeneratePresignedURL req] \<and> ps_ExpiresIn req = - 9223372036709551616"
    by (auto simp: q)
  from T [of "[(''ttl'', ''9223372036854775808'')]"] a3
  have r3: "written_status (response (Handle stubLib exampleHandler
              (storageRequest ?p [(''ttl'', ''9223372036854775808'')]))) = Some 400"
    by (simp add: q written_status_writeError)
  from T [of "[(''ttl'', ''1h'')]"] a4
  have r4: "written_status (response (Handle stubLib exampleHandler
              (storageRequest ?p [(''ttl'', ''1h'')]))) = Some 400"
    by (simp add: q written_status_writeError)
  from p [of "[]"] a1 a2 a3 a4 r1 r2 r3 r4 show ?thesis
    by (simp add: storageRequest_def)
qed

text \<open>
  The claim C2 as stated fails: \<open>ttl=0\<close> and \<open>ttl=-5\<close> are not answered 400 but handed
  to the provider, and a \<open>ttl\<close> of 1000000000 seconds is handed on in full.
\<close>

theorem presign_ttl_counterexample:
  "Handle stubLib exampleHandler
      (storageRequest ''/-s3/prod/presign/rag-docs/policies/p.pdf'' [(''ttl'', ''0'')])
     = \<lparr>response = jsonOK (encodePresignedURL
           \<lparr>URL = ''https://rag-docs.s3.amazonaws.com/policies/p.pdf'', ExpiresIn = 0,
            ExpiresAt = ''2025-01-15T13:00:00Z'', Operation = ''GetObject'',
            Bucket = ''rag-docs'', Key = ''policies/p.pdf''\<rparr>),
        calls = [CallGeneratePresignedURL
           \<lparr>ps_Bucket = ''rag-docs'', ps_Key = ''policies/p.pdf'', ps_Operation = ''GetObject'',
            ps_ExpiresIn = 0, ps_ContentType = ''''\<rparr>]\<rparr>
   \<and> written_status (response (Handle stubLib exampleHandler
        (storageRequest ''/-s3/prod/presign/rag-docs/policies/p.pdf'' [(''ttl'', ''0'')]))) = Some 200
   \<and> written_status (response (Handle stubLib exampleHandler
        (storageRequest ''/-s3/prod/presign/rag-docs/policies/p.pdf'' [(''ttl'', ''-5'')]))) = Some 200
   \<and> calls (Handle stubLib exampleHandler
        (storageRequest ''/-s3/prod/presign/rag-docs/policies/p.pdf'' [(''ttl'', ''-5'')]))
       = [CallGeneratePresignedURL
           \<lparr>ps_Bucket = ''rag-docs'', ps_Key = ''policies/p.pdf'', ps_Operation = ''GetObject'',
            ps_ExpiresIn = - 5000000000, ps_ContentType = ''''\<rparr>]
   \<and> calls (Handle stubLib exampleHandler
        (storageRequest ''/-s3/prod/presign/rag-docs/policies/p.pdf'' [(''ttl'', ''1000000000'')]))
       = [CallGeneratePresignedURL
           \<lparr>ps_Bucket = ''rag-docs'', ps_Key = ''policies/p.pdf'', ps_Operation = ''GetObject'',
            ps_ExpiresIn = 1000000000000000000, ps_ContentType = ''''\<rparr>]"
proof -
  have a0: "Atoi ''0'' = Some 0" by (simp add: Atoi_def isDigit_def)
  have a5: "Atoi ''-5'' = Some (- 5)" by (simp add: Atoi_def isDigit_def)
  have a9: "Atoi ''1000000000'' = Some 1000000000" by (simp add: Atoi_def isDigit_def)
  have w0: "wrap64 (0 * Second) = 0" by (simp add: wrap64_def)
  have w5: "wrap64 (- 5 * Second) = - 5000000000" by (simp add: wrap64_def Second_def)
  have w9: "wrap64 (1000000000 * Second) = 1000000000000000000"
    by (simp add: wrap64_def Second_def)
  show ?thesis
    using example_presign_outcome [OF a0] example_presign_outcome [OF a5]
      example_presign_outcome [OF a9] w0 w5 w9
    by (simp add: example_presign_dispatch jsonOK_def Second_def written_status_def)
qed

end
